theory Spec2Isabelle
  imports Complex_Main "HOL-Library.Code_Target_Nat" "HOL-Library.Log_Nat"
begin

section \<open>JavaScript strings and collections\<close>

text \<open>
  Addresses, hashes, selectors and call data are JavaScript strings in the detectors; they
  are \<open>string\<close> here. \<open>toLowerCase\<close> folds the ASCII letters, which are the only
  cased characters of a hexadecimal address.
\<close>

definition toLowerChar :: "char \<Rightarrow> char" where
  "toLowerChar c =
     (let n = (of_char c :: nat) in if 65 \<le> n \<and> n \<le> 90 then char_of (n + 32) else c)"

definition toLowerCase :: "string \<Rightarrow> string" where
  "toLowerCase s = map toLowerChar s"

definition startsWith :: "string \<Rightarrow> string \<Rightarrow> bool" where
  "startsWith s p = (take (length p) s = p)"

text \<open>\<open>String.prototype.includes\<close>: the substring test.\<close>

fun includes_str :: "string \<Rightarrow> string \<Rightarrow> bool" where
  "includes_str [] sub = (sub = [])"
| "includes_str (c # cs) sub = (startsWith (c # cs) sub \<or> includes_str cs sub)"

text \<open>\<open>s.slice(0, 10)\<close>: the leading selector with its \<open>0x\<close> prefix.\<close>

definition slice_0_10 :: "string \<Rightarrow> string" where
  "slice_0_10 s = take 10 s"

text \<open>\<open>toString()\<close> of a non-negative \<open>bigint\<close> or array length: the decimal numeral.\<close>

fun toString_nat :: "nat \<Rightarrow> string" where
  "toString_nat n =
     (if n < 10 then [char_of (48 + n)]
      else toString_nat (n div 10) @ [char_of (48 + n mod 10)])"

declare toString_nat.simps [simp del]

text \<open>
  An indexed read \<open>xs[i]\<close> of a JavaScript array is \<open>undefined\<close> out of range; the index
  is an \<open>int\<close> because \<open>xs[xs.length - 1]\<close> reads index \<open>-1\<close> on an empty array.
\<close>

definition js_index :: "'a list \<Rightarrow> int \<Rightarrow> 'a option" where
  "js_index xs i = (if 0 \<le> i \<and> i < int (length xs) then Some (xs ! nat i) else None)"

text \<open>
  A JavaScript \<open>Map\<close> iterates in insertion order, \<open>set\<close> on a present key keeps the key's
  position and \<open>delete\<close> removes it: an association list without duplicate keys.
\<close>

fun Map_set :: "('k \<times> 'v) list \<Rightarrow> 'k \<Rightarrow> 'v \<Rightarrow> ('k \<times> 'v) list" where
  "Map_set [] k v = [(k, v)]"
| "Map_set ((k', v') # m) k v = (if k' = k then (k, v) # m else (k', v') # Map_set m k v)"

definition Map_get :: "('k \<times> 'v) list \<Rightarrow> 'k \<Rightarrow> 'v option" where
  "Map_get m k = map_of m k"

definition Map_delete :: "('k \<times> 'v) list \<Rightarrow> 'k \<Rightarrow> ('k \<times> 'v) list" where
  "Map_delete m k = filter (\<lambda>(k', v). k' \<noteq> k) m"

section \<open>JavaScript numbers\<close>

text \<open>
  A JavaScript \<open>number\<close> is an IEEE 754 binary64 value, and every conversion and every
  arithmetic operation rounds its exact result to the nearest such value, ties to the
  even significand. The values are modelled by the rationals they denote and the
  rounding by \<open>toDouble\<close>, which keeps 53 significant bits. The exponent range is not
  modelled: the amounts that the detectors convert are 256-bit unsigned integers, so
  every value and every quotient lies between \<open>2^-256\<close> and \<open>2^256\<close>, far inside the
  normal range, where no overflow and no subnormal value occurs.
\<close>

definition roundHalfEven :: "rat \<Rightarrow> int" where
  "roundHalfEven x =
     (let f = \<lfloor>x\<rfloor>; d = x - of_int f
      in if d < 1 / 2 then f else if 1 / 2 < d then f + 1 else if even f then f else f + 1)"

text \<open>The exponent \<open>e\<close> with \<open>2^e \<le> x < 2^(e+1)\<close>, for a positive \<open>x\<close>.\<close>

definition binaryExponent :: "rat \<Rightarrow> int" where
  "binaryExponent x =
     (if 1 \<le> x then bitlen \<lfloor>x\<rfloor> - 1 else - bitlen (\<lceil>1 / x\<rceil> - 1))"

definition roundPositive :: "rat \<Rightarrow> rat" where
  "roundPositive x =
     (let ulp = 2 powi (binaryExponent x - 52) in of_int (roundHalfEven (x / ulp)) * ulp)"

definition toDouble :: "rat \<Rightarrow> rat" where
  "toDouble x = (if x = 0 then 0 else if 0 < x then roundPositive x else - roundPositive (- x))"

text \<open>\<open>Number(n)\<close> of a non-negative \<open>bigint\<close>.\<close>

definition Number :: "nat \<Rightarrow> rat" where
  "Number n = toDouble (of_nat n)"

section \<open>Findings\<close>

datatype FindingSeverity =
  Severity_Info | Severity_Low | Severity_Medium | Severity_High | Severity_Critical

datatype FindingType = Type_Info | Type_Suspicious | Type_Exploit

record Finding =
  name :: string
  description :: string
  alertId :: string
  severity :: FindingSeverity
  ftype :: FindingType
  metadata :: "(string \<times> string) list"

definition fromObject ::
  "string \<Rightarrow> string \<Rightarrow> string \<Rightarrow> FindingSeverity \<Rightarrow> FindingType \<Rightarrow> (string \<times> string) list \<Rightarrow> Finding" where
  "fromObject n d a s t m =
     \<lparr>name = n, description = d, alertId = a, severity = s, ftype = t, metadata = m\<rparr>"

text \<open>A \<open>for\<close> loop whose body pushes findings and updates the detector's state.\<close>

fun forEach ::
  "('s \<Rightarrow> 'a \<Rightarrow> Finding list \<times> 's) \<Rightarrow> 's \<Rightarrow> 'a list \<Rightarrow> Finding list \<times> 's" where
  "forEach body st [] = ([], st)"
| "forEach body st (x # xs) =
     (case body st x of
        (f, st') \<Rightarrow> (case forEach body st' xs of (fs, st'') \<Rightarrow> (f @ fs, st'')))"

section \<open>Transaction events and the chain data gateway\<close>

text \<open>
  The decoded logs of a transaction, one constructor per event that a detector asks
  for.
\<close>

datatype log_args =
  Approval string string nat
| ApprovalForAll string string bool
| AuthenticationRequired string string nat
| AuthenticationSuccessful string string
| AuthenticationFailed string string string
| ExecutionSuccess
| Confirmation
| RevokeConfirmation
| OwnerAddition
| OwnerRemoval
| RequirementChange nat
| OtherEvent

record Log =
  log_address :: string
  args :: log_args

text \<open>
  The decoded function calls of a transaction, one constructor per signature that a
  detector passes to \<open>filterFunction\<close>.
\<close>

datatype call_args =
  approve string nat
| setApprovalForAll string bool
| transfer
| transferFrom
| multicall
| delegate string
| execTransaction
| confirmTransaction
| revokeConfirmation
| changeThreshold
| addOwner
| removeOwner
| otherCall

record Call =
  call_address :: string
  call :: call_args

record TraceAction =
  action_to :: string
  action_input :: string

record Trace =
  trace_type :: string
  trace_action :: "TraceAction option"

text \<open>
  \<open>TransactionEvent\<close>. The recipient is absent on contract creation, the gas price may
  be absent; \<open>value\<close>, \<open>gasPrice\<close> and \<open>blockNumber\<close> are the numbers that the
  detectors read with \<open>BigInt(...)\<close> and \<open>Number(...)\<close>. \<open>data\<close> is the call data
  as the hexadecimal string the detectors slice and measure.
\<close>

record TransactionEvent =
  tx_hash :: string
  tx_from :: string
  tx_to :: "string option"
  tx_value :: nat
  tx_gasPrice :: "nat option"
  tx_data :: string
  tx_blockNumber :: nat
  tx_logs :: "Log list"
  tx_calls :: "Call list"
  tx_traces :: "Trace list"
  tx_addresses :: "string list"

text \<open>The canonical signature of the event of a log.\<close>

definition eventSignature :: "log_args \<Rightarrow> string" where
  "eventSignature a =
     (case a of
        Approval owner spender v \<Rightarrow> ''Approval(address,address,uint256)''
      | ApprovalForAll owner operator approved \<Rightarrow> ''ApprovalForAll(address,address,bool)''
      | AuthenticationRequired user operationId ts \<Rightarrow>
          ''AuthenticationRequired(address,bytes32,uint256)''
      | AuthenticationSuccessful user operationId \<Rightarrow> ''AuthenticationSuccessful(address,bytes32)''
      | AuthenticationFailed user operationId reason \<Rightarrow>
          ''AuthenticationFailed(address,bytes32,string)''
      | ExecutionSuccess \<Rightarrow> ''ExecutionSuccess(bytes32,uint256)''
      | Confirmation \<Rightarrow> ''Confirmation(address,bytes32)''
      | RevokeConfirmation \<Rightarrow> ''RevokeConfirmation(address,bytes32)''
      | OwnerAddition \<Rightarrow> ''OwnerAddition(address)''
      | OwnerRemoval \<Rightarrow> ''OwnerRemoval(address)''
      | RequirementChange requirement \<Rightarrow> ''RequirementChange(uint256)''
      | OtherEvent \<Rightarrow> [])"

text \<open>
  What a detector passes to \<open>txEvent.filterLog\<close>. The method of the agent library
  takes an event ABI fragment; the detectors pass \<open>ethers.id(signature)\<close>, the keccak
  hash of a signature, which is kept here as the signature that was hashed.
\<close>

datatype log_filter = EventFragment string | TopicHash string

definition ethers_id :: "string \<Rightarrow> log_filter" where
  "ethers_id signature = TopicHash signature"

datatype error = UnsupportedFragment

text \<open>
  \<open>filterLog\<close> is a method of the event object, so the detectors are functions of it.
  \<open>forta_filterLog\<close> is the method of the agent library's \<open>TransactionEvent\<close>: it
  builds an interface from its argument and throws \<open>unsupported fragment\<close> when the
  argument is a hash and not a fragment, whatever the logs are. \<open>topic_filterLog\<close> is
  the method of an event object that accepts the hash and returns the logs of the
  event it stands for, as a test double of the event does.
\<close>

type_synonym filterLog_method = "TransactionEvent \<Rightarrow> log_filter \<Rightarrow> error + Log list"

definition logsOfEvent :: "TransactionEvent \<Rightarrow> string \<Rightarrow> Log list" where
  "logsOfEvent txEvent signature =
     filter (\<lambda>l. eventSignature (args l) = signature) (tx_logs txEvent)"

definition forta_filterLog :: filterLog_method where
  "forta_filterLog txEvent eventAbi =
     (case eventAbi of
        EventFragment signature \<Rightarrow> Inr (logsOfEvent txEvent signature)
      | TopicHash signature \<Rightarrow> Inl UnsupportedFragment)"

definition topic_filterLog :: filterLog_method where
  "topic_filterLog txEvent eventAbi =
     (case eventAbi of
        EventFragment signature \<Rightarrow> Inr (logsOfEvent txEvent signature)
      | TopicHash signature \<Rightarrow> Inr (logsOfEvent txEvent signature))"

definition filterFunction :: "TransactionEvent \<Rightarrow> (call_args \<Rightarrow> bool) \<Rightarrow> Call list" where
  "filterFunction txEvent sig = filter (\<lambda>c. sig (call c)) (tx_calls txEvent)"

text \<open>\<open>!txEvent.to\<close>: the recipient is missing or the empty string.\<close>

definition no_to :: "TransactionEvent \<Rightarrow> bool" where
  "no_to txEvent = (case tx_to txEvent of None \<Rightarrow> True | Some t \<Rightarrow> t = [])"

text \<open>\<open>txEvent.to || ''\<close>\<close>

definition to_or_empty :: "TransactionEvent \<Rightarrow> string" where
  "to_or_empty txEvent = (case tx_to txEvent of None \<Rightarrow> [] | Some t \<Rightarrow> t)"

text \<open>
  What \<open>ethers.Interface.parseTransaction\<close> decodes from swap call data: the arguments
  of the fragment that the selector names.
\<close>

datatype decoded_swap =
  swapExactETHForTokens nat "string list" string nat
| swapExactTokensForETH nat nat "string list" string nat
| swapExactTokensForTokens nat nat "string list" string nat
| exactInput string string nat nat nat
| exactOutput string string nat nat nat

text \<open>
  Everything a detector reads from outside the transaction event. A provider call that
  throws is \<open>None\<close>. \<open>getFeeData\<close> returns a gas price that may be null.
  \<open>parse_V2\<close> and \<open>parse_V3\<close> are \<open>parseTransaction\<close> of the two router interfaces
  (\<open>None\<close>: it throws or returns null). \<open>now\<close> is \<open>Math.floor(Date.now() / 1000)\<close>.
  The last three fields are the renderings of JavaScript numbers and arrays that go
  into finding metadata.
\<close>

record env =
  getCode :: "string \<Rightarrow> string option"
  getTransactionCount :: "string \<Rightarrow> nat option"
  getFeeData :: "nat option option"
  getBlockNumber :: "nat option"
  call_getOwners :: "string \<Rightarrow> string list option"
  call_getThreshold :: "string \<Rightarrow> nat option"
  parse_V2 :: "string \<Rightarrow> decoded_swap option"
  parse_V3 :: "string \<Rightarrow> decoded_swap option"
  now :: int
  Number_toFixed2 :: "rat \<Rightarrow> string"
  Number_toString :: "rat \<Rightarrow> string"
  JSON_stringify :: "string list \<Rightarrow> string"

section \<open>MEV detector\<close>

definition SWAP_FUNCTIONS :: "string list" where
  "SWAP_FUNCTIONS =
     [''0x7ff36ab5'', ''0x18cbafe5'', ''0x38ed1739'', ''0xc04b8d59'', ''0xf28c0498'',
      ''0x7ff36ab5'', ''0x7ff36ab5'']"

definition DEX_ROUTERS_UNISWAP_V2 :: string where
  "DEX_ROUTERS_UNISWAP_V2 = ''0x7a250d5630b4cf539739df2c5dacb4c659f2488d''"

definition DEX_ROUTERS_UNISWAP_V3 :: string where
  "DEX_ROUTERS_UNISWAP_V3 = ''0xe592427a0aece92de3edee1f18e0157c05861564''"

definition DEX_ROUTERS_SUSHISWAP :: string where
  "DEX_ROUTERS_SUSHISWAP = ''0xd9e1ce17f2641f24ae83637ab66a2cca9c378b9f''"

definition DEX_ROUTERS_PANCAKESWAP :: string where
  "DEX_ROUTERS_PANCAKESWAP = ''0x10ed43c718714eb63d5aa57b78b54704e256024e''"

definition DEX_ROUTERS :: "string list" where
  "DEX_ROUTERS =
     [DEX_ROUTERS_UNISWAP_V2, DEX_ROUTERS_UNISWAP_V3, DEX_ROUTERS_SUSHISWAP,
      DEX_ROUTERS_PANCAKESWAP]"

record PendingSwap =
  blockNumber :: nat
  timestamp :: int
  swap_from :: string
  tokenPath :: "string list"
  amountIn :: nat
  amountOutMin :: nat
  slippage :: rat

type_synonym pendingSwaps = "(string \<times> PendingSwap) list"

record SwapData =
  sd_path :: "string list"
  sd_amountIn :: nat
  sd_amountOutMin :: nat
  sd_slippage :: rat

definition checkForHighGasPrice :: "env \<Rightarrow> TransactionEvent \<Rightarrow> Finding list" where
  "checkForHighGasPrice e txEvent =
     (case tx_gasPrice txEvent of
        None \<Rightarrow> []
      | Some gasPrice \<Rightarrow>
          (case getFeeData e of
             None \<Rightarrow> []
           | Some feeGasPrice \<Rightarrow>
               (let averageGasPrice = (case feeGasPrice of Some g \<Rightarrow> g | None \<Rightarrow> 0) in
                if averageGasPrice > 0 \<and> gasPrice > averageGasPrice * 5 then
                  [fromObject ''High Gas Price Transaction''
                     (''Transaction with unusually high gas price ('' @ toString_nat gasPrice @ '')'')
                     ''MEV-1'' Severity_Medium Type_Suspicious
                     [(''from'', tx_from txEvent),
                      (''to'', to_or_empty txEvent),
                      (''gasPrice'', toString_nat gasPrice),
                      (''averageGasPrice'', toString_nat averageGasPrice),
                      (''ratio'',
                        Number_toFixed2 e (toDouble (Number gasPrice / Number averageGasPrice)))]]
                else [])))"

definition isSwapTransaction :: "TransactionEvent \<Rightarrow> bool" where
  "isSwapTransaction txEvent =
     (if no_to txEvent then False
      else
        let isKnownRouter =
              list_ex (\<lambda>router. toLowerCase (to_or_empty txEvent) = toLowerCase router) DEX_ROUTERS
        in if \<not> isKnownRouter then False
           else list_ex (\<lambda>signature. startsWith (tx_data txEvent) signature) SWAP_FUNCTIONS)"

text \<open>
  The three values \<open>parseSwapData\<close> assembles before its final test. A decode that
  throws leaves the function through its \<open>catch\<close> with null, and a decode that returns
  null leaves \<open>path\<close> empty, which the final test turns into null as well: both are
  the empty path here.
\<close>

definition decodeSwap :: "env \<Rightarrow> TransactionEvent \<Rightarrow> string list \<times> nat \<times> nat" where
  "decodeSwap e txEvent =
     (let routerAddress = toLowerCase (to_or_empty txEvent);
          functionFragment = slice_0_10 (tx_data txEvent)
      in
      if routerAddress = toLowerCase DEX_ROUTERS_UNISWAP_V2
         \<or> routerAddress = toLowerCase DEX_ROUTERS_SUSHISWAP
         \<or> routerAddress = toLowerCase DEX_ROUTERS_PANCAKESWAP
      then
        (if functionFragment = ''0x7ff36ab5'' then
           (case parse_V2 e (tx_data txEvent) of
              Some (swapExactETHForTokens aOutMin p t d) \<Rightarrow> (p, tx_value txEvent, aOutMin)
            | _ \<Rightarrow> ([], tx_value txEvent, 0))
         else if functionFragment = ''0x18cbafe5'' \<or> functionFragment = ''0x38ed1739'' then
           (case parse_V2 e (tx_data txEvent) of
              Some (swapExactTokensForETH aIn aOutMin p t d) \<Rightarrow> (p, aIn, aOutMin)
            | Some (swapExactTokensForTokens aIn aOutMin p t d) \<Rightarrow> (p, aIn, aOutMin)
            | _ \<Rightarrow> ([], 0, 0))
         else ([], 0, 0))
      else if routerAddress = toLowerCase DEX_ROUTERS_UNISWAP_V3 then
        (if functionFragment = ''0xc04b8d59'' then
           (case parse_V3 e (tx_data txEvent) of
              Some (exactInput p r d aIn aOutMinimum) \<Rightarrow> ([''token0'', ''token1''], aIn, aOutMinimum)
            | _ \<Rightarrow> ([], 0, 0))
         else if functionFragment = ''0xf28c0498'' then
           (case parse_V3 e (tx_data txEvent) of
              Some (exactOutput p r d aOut aInMaximum) \<Rightarrow> ([''token0'', ''token1''], aInMaximum, aOut)
            | _ \<Rightarrow> ([], 0, 0))
         else ([], 0, 0))
      else ([], 0, 0))"

definition parseSwapData :: "env \<Rightarrow> TransactionEvent \<Rightarrow> SwapData option" where
  "parseSwapData e txEvent =
     (if no_to txEvent \<or> tx_data txEvent = [] then None
      else
        (case decodeSwap e txEvent of
           (path, aIn, aOutMin) \<Rightarrow>
             if aIn = 0 \<or> length path = 0 then None
             else
               Some \<lparr>sd_path = path, sd_amountIn = aIn, sd_amountOutMin = aOutMin,
                     sd_slippage =
                       (if aOutMin > 0 then toDouble (1 - toDouble (Number aOutMin / Number aIn))
                        else 0)\<rparr>))"

definition areSimilarPaths :: "string list \<Rightarrow> string list \<Rightarrow> bool" where
  "areSimilarPaths path1 path2 =
     (if length path1 \<noteq> length path2 then False
      else js_index path1 0 = js_index path2 0
           \<and> js_index path1 (int (length path1) - 1) = js_index path2 (int (length path2) - 1))"

definition cleanupOldSwaps :: "pendingSwaps \<Rightarrow> int \<Rightarrow> pendingSwaps" where
  "cleanupOldSwaps m minBlockNumber =
     filter (\<lambda>(hash, data). \<not> int (blockNumber data) < minBlockNumber) m"

definition sandwichFinding ::
  "env \<Rightarrow> string \<times> PendingSwap \<Rightarrow> string \<times> PendingSwap \<Rightarrow> string \<times> PendingSwap \<Rightarrow> Finding" where
  "sandwichFinding e swap1 swap2 swap3 =
     fromObject ''Potential Sandwich Attack''
       ''Pattern of transactions consistent with a sandwich attack detected''
       ''MEV-2'' Severity_High Type_Suspicious
       [(''victimTx'', fst swap2),
        (''frontrunTx'', fst swap1),
        (''backrunTx'', fst swap3),
        (''attacker'', swap_from (snd swap1)),
        (''victim'', swap_from (snd swap2)),
        (''tokenPath'', JSON_stringify e (tokenPath (snd swap2)))]"

text \<open>The loop over \<open>i = 0 .. length - 3\<close>, one step per leading triple.\<close>

fun sandwichScan :: "env \<Rightarrow> (string \<times> PendingSwap) list \<Rightarrow> Finding list" where
  "sandwichScan e (swap1 # swap2 # swap3 # rest) =
     (if areSimilarPaths (tokenPath (snd swap1)) (tokenPath (snd swap3))
         \<and> swap_from (snd swap1) = swap_from (snd swap3)
         \<and> swap_from (snd swap1) \<noteq> swap_from (snd swap2)
      then [sandwichFinding e swap1 swap2 swap3] else [])
     @ sandwichScan e (swap2 # swap3 # rest)"
| "sandwichScan e swaps = []"

definition currentBlockSwaps :: "pendingSwaps \<Rightarrow> TransactionEvent \<Rightarrow> (string \<times> PendingSwap) list" where
  "currentBlockSwaps m txEvent =
     filter (\<lambda>(hash, data). blockNumber data = tx_blockNumber txEvent) m"

text \<open>The entry that \<open>checkForSandwichAttacks\<close> stores under the transaction hash.\<close>

definition recordedSwap :: "env \<Rightarrow> TransactionEvent \<Rightarrow> SwapData \<Rightarrow> PendingSwap" where
  "recordedSwap e txEvent swapData =
     \<lparr>blockNumber = tx_blockNumber txEvent,
      timestamp = now e,
      swap_from = tx_from txEvent,
      tokenPath = sd_path swapData,
      amountIn = sd_amountIn swapData,
      amountOutMin = sd_amountOutMin swapData,
      slippage = sd_slippage swapData\<rparr>"

definition checkForSandwichAttacks ::
  "env \<Rightarrow> pendingSwaps \<Rightarrow> TransactionEvent \<Rightarrow> Finding list \<times> pendingSwaps" where
  "checkForSandwichAttacks e m txEvent =
     (if \<not> isSwapTransaction txEvent then ([], m)
      else
        (case parseSwapData e txEvent of
           None \<Rightarrow> ([], m)
         | Some swapData \<Rightarrow>
             (let m1 = Map_set m (tx_hash txEvent) (recordedSwap e txEvent swapData);
                  m2 = cleanupOldSwaps m1 (int (tx_blockNumber txEvent) - 100);
                  swaps = currentBlockSwaps m2 txEvent
              in ((if length swaps \<ge> 3 then sandwichScan e swaps else []), m2))))"

definition checkForLowSlippageTolerance :: "env \<Rightarrow> TransactionEvent \<Rightarrow> Finding list" where
  "checkForLowSlippageTolerance e txEvent =
     (if \<not> isSwapTransaction txEvent then []
      else
        (case parseSwapData e txEvent of
           None \<Rightarrow> []
         | Some swapData \<Rightarrow>
             if sd_slippage swapData < toDouble (1 / 1000) then
               [fromObject ''Extremely Low Slippage Tolerance''
                  ''Swap with very low slippage tolerance, could be MEV target''
                  ''MEV-3'' Severity_Medium Type_Suspicious
                  [(''from'', tx_from txEvent),
                   (''to'', to_or_empty txEvent),
                   (''amountIn'', toString_nat (sd_amountIn swapData)),
                   (''amountOutMin'', toString_nat (sd_amountOutMin swapData)),
                   (''slippage'', Number_toString e (sd_slippage swapData)),
                   (''path'', JSON_stringify e (sd_path swapData))]]
             else []))"

definition checkForUnusualSwapRoutes :: "env \<Rightarrow> TransactionEvent \<Rightarrow> Finding list" where
  "checkForUnusualSwapRoutes e txEvent =
     (if \<not> isSwapTransaction txEvent then []
      else
        (case parseSwapData e txEvent of
           None \<Rightarrow> []
         | Some swapData \<Rightarrow>
             if length (sd_path swapData) > 4 then
               [fromObject ''Unusual Swap Route''
                  (''Swap with unusually long token path ('' @ toString_nat (length (sd_path swapData))
                     @ '' tokens)'')
                  ''MEV-4'' Severity_Medium Type_Suspicious
                  [(''from'', tx_from txEvent),
                   (''to'', to_or_empty txEvent),
                   (''pathLength'', toString_nat (length (sd_path swapData))),
                   (''path'', JSON_stringify e (sd_path swapData))]]
             else []))"

definition MEVDetector_handleTransaction ::
  "env \<Rightarrow> pendingSwaps \<Rightarrow> TransactionEvent \<Rightarrow> Finding list \<times> pendingSwaps" where
  "MEVDetector_handleTransaction e m txEvent =
     (let f1 = checkForHighGasPrice e txEvent;
          (f2, m') = checkForSandwichAttacks e m txEvent;
          f3 = checkForLowSlippageTolerance e txEvent;
          f4 = checkForUnusualSwapRoutes e txEvent
      in (f1 @ f2 @ f3 @ f4, m'))"

text \<open>A run of the detector over a sequence of transactions, from a given state.\<close>

fun MEVDetector_run :: "env \<Rightarrow> pendingSwaps \<Rightarrow> TransactionEvent list \<Rightarrow> pendingSwaps" where
  "MEVDetector_run e m [] = m"
| "MEVDetector_run e m (txEvent # txs) =
     MEVDetector_run e (snd (MEVDetector_handleTransaction e m txEvent)) txs"

section \<open>Approval detector\<close>
















definition isApproveCall :: "call_args \<Rightarrow> bool" where
  "isApproveCall c = (case c of approve spender v \<Rightarrow> True | _ \<Rightarrow> False)"

definition isSetApprovalForAllCall :: "call_args \<Rightarrow> bool" where
  "isSetApprovalForAllCall c = (case c of setApprovalForAll operator approved \<Rightarrow> True | _ \<Rightarrow> False)"







section \<open>Phishing detector\<close>

definition SUSPICIOUS_SIGNATURES :: "string list" where
  "SUSPICIOUS_SIGNATURES =
     [''0xa9059cbb'', ''0x23b872dd'', ''0xa22cb465'', ''0x095ea7b3'', ''0xf309926f'',
      ''0xac9650d8'', ''0x2eb2c2d6'', ''0x5c19a95c'']"

definition KNOWN_HONEYPOT_CONTRACTS :: "string list" where
  "KNOWN_HONEYPOT_CONTRACTS =
     [''0x7ea2f8c2a3c7c0850e59a8d155a7b8ed5a7cee65'',
      ''0xa9881c706647ce486b687d47e04a6f64c308a6c9'']"

definition MaxUint256 :: nat where
  "MaxUint256 = 2 ^ 256 - 1"

definition EXCESSIVE_APPROVAL :: string where
  "EXCESSIVE_APPROVAL = toString_nat MaxUint256"

definition LONG_DATA_THRESHOLD :: nat where
  "LONG_DATA_THRESHOLD = 5000"

definition isRecentlyDeployedContract :: "env \<Rightarrow> string \<Rightarrow> bool" where
  "isRecentlyDeployedContract e address =
     (case getCode e address of
        None \<Rightarrow> False
      | Some code \<Rightarrow>
          if code = ''0x'' then False
          else (case getTransactionCount e address of None \<Rightarrow> False | Some txCount \<Rightarrow> txCount < 5))"

definition isRecentlyActiveAddress :: "env \<Rightarrow> string \<Rightarrow> bool" where
  "isRecentlyActiveAddress e address =
     (case getTransactionCount e address of None \<Rightarrow> False | Some txCount \<Rightarrow> txCount < 3)"

definition checkKnownPhishingAddresses :: "TransactionEvent \<Rightarrow> Finding list" where
  "checkKnownPhishingAddresses txEvent =
     (let suspiciousDestinations =
            filter (\<lambda>addr. \<not> no_to txEvent \<and> toLowerCase (to_or_empty txEvent) = toLowerCase addr)
              KNOWN_HONEYPOT_CONTRACTS
      in if length suspiciousDestinations > 0 then
           [fromObject ''Known Phishing Address''
              ''Transaction interacts with a known phishing address''
              ''PHISHING-1'' Severity_High Type_Suspicious
              [(''address'', to_or_empty txEvent), (''from'', tx_from txEvent)]]
         else [])"

definition isApprovalCall :: "call_args \<Rightarrow> bool" where
  "isApprovalCall c = (isApproveCall c \<or> isSetApprovalForAllCall c)"

text \<open>The body of the loop over \<open>approvalCalls\<close> for one call.\<close>

definition approvalCallStep :: "env \<Rightarrow> TransactionEvent \<Rightarrow> Call \<Rightarrow> Finding list" where
  "approvalCallStep e txEvent c =
     (case call c of
        approve arg0 arg1 \<Rightarrow>
          (if toString_nat arg1 = EXCESSIVE_APPROVAL then
             (let spender = toLowerCase arg0 in
              if isRecentlyDeployedContract e spender then
                [fromObject ''Suspicious Token Approval''
                   ''Unlimited token approval to a recently deployed contract''
                   ''PHISHING-2'' Severity_High Type_Suspicious
                   [(''token'', call_address c), (''spender'', spender),
                    (''owner'', tx_from txEvent), (''value'', toString_nat arg1)]]
              else [])
           else [])
      | setApprovalForAll arg0 arg1 \<Rightarrow>
          (if arg1 then
             (let operator = toLowerCase arg0 in
              if isRecentlyDeployedContract e operator then
                [fromObject ''Suspicious Collection Approval''
                   ''Approval granted for all NFTs to a recently deployed contract''
                   ''PHISHING-3'' Severity_High Type_Suspicious
                   [(''collection'', call_address c), (''operator'', operator),
                    (''owner'', tx_from txEvent)]]
              else [])
           else [])
      | _ \<Rightarrow> [])"

definition isMulticallCall :: "call_args \<Rightarrow> bool" where
  "isMulticallCall c = (c = multicall)"

definition suspiciousMulticall :: "TransactionEvent \<Rightarrow> Finding list" where
  "suspiciousMulticall txEvent =
     (let multicallFunctions = filterFunction txEvent isMulticallCall in
      if length multicallFunctions > 0 \<and> length (tx_data txEvent) > LONG_DATA_THRESHOLD then
        [fromObject ''Suspicious Multicall''
           ''Large data multicall transaction detected''
           ''PHISHING-4'' Severity_Medium Type_Suspicious
           [(''contract'', to_or_empty txEvent), (''from'', tx_from txEvent),
            (''dataLength'', toString_nat (length (tx_data txEvent)))]]
      else [])"

definition checkSuspiciousTokenOperations :: "env \<Rightarrow> TransactionEvent \<Rightarrow> Finding list" where
  "checkSuspiciousTokenOperations e txEvent =
     concat (map (approvalCallStep e txEvent) (filterFunction txEvent isApprovalCall))
     @ suspiciousMulticall txEvent"

definition checkForFrontrunning :: "TransactionEvent \<Rightarrow> Finding list" where
  "checkForFrontrunning txEvent =
     (case tx_gasPrice txEvent of
        None \<Rightarrow> []
      | Some gasPrice \<Rightarrow>
          if gasPrice > 500 * 10 ^ 9 then
            [fromObject ''Potential Frontrunning''
               ''Transaction with unusually high gas price''
               ''PHISHING-5'' Severity_Medium Type_Suspicious
               [(''from'', tx_from txEvent), (''to'', to_or_empty txEvent),
                (''gasPrice'', toString_nat gasPrice)]]
          else [])"

definition isDelegateCall :: "call_args \<Rightarrow> bool" where
  "isDelegateCall c = (case c of delegate delegatee \<Rightarrow> True | _ \<Rightarrow> False)"

definition delegateCallStep :: "env \<Rightarrow> TransactionEvent \<Rightarrow> Call \<Rightarrow> Finding list" where
  "delegateCallStep e txEvent c =
     (case call c of
        delegate arg0 \<Rightarrow>
          (let delegatee = toLowerCase arg0 in
           if isRecentlyActiveAddress e delegatee then
             [fromObject ''Suspicious Delegation''
                ''Voting power delegated to a recently active address''
                ''PHISHING-6'' Severity_Medium Type_Suspicious
                [(''delegator'', tx_from txEvent), (''delegatee'', delegatee),
                 (''contract'', call_address c)]]
           else [])
      | _ \<Rightarrow> [])"

definition checkSuspiciousDelegation :: "env \<Rightarrow> TransactionEvent \<Rightarrow> Finding list" where
  "checkSuspiciousDelegation e txEvent =
     concat (map (delegateCallStep e txEvent) (filterFunction txEvent isDelegateCall))"

definition checkInteractionWithRecentContracts :: "env \<Rightarrow> TransactionEvent \<Rightarrow> Finding list" where
  "checkInteractionWithRecentContracts e txEvent =
     (if no_to txEvent then []
      else
        let isRecentContract = isRecentlyDeployedContract e (to_or_empty txEvent) in
        if isRecentContract \<and> length (tx_data txEvent) > 0 then
          (if list_ex (\<lambda>signature. startsWith (tx_data txEvent) signature) SUSPICIOUS_SIGNATURES
           then
             [fromObject ''Interaction with Suspicious New Contract''
                ''Transaction to a recently deployed contract with suspicious function signature''
                ''PHISHING-7'' Severity_High Type_Suspicious
                [(''from'', tx_from txEvent), (''to'', to_or_empty txEvent),
                 (''data'', slice_0_10 (tx_data txEvent))]]
           else [])
        else [])"

definition PhishingDetector_handleTransaction :: "env \<Rightarrow> TransactionEvent \<Rightarrow> Finding list" where
  "PhishingDetector_handleTransaction e txEvent =
     checkKnownPhishingAddresses txEvent
     @ checkSuspiciousTokenOperations e txEvent
     @ checkForFrontrunning txEvent
     @ checkSuspiciousDelegation e txEvent
     @ checkInteractionWithRecentContracts e txEvent"

section \<open>Multisig protection detector\<close>

text \<open>The values of \<open>MULTISIG_INTERFACES\<close>.\<close>

definition MULTISIG_INTERFACES_EXECUTE :: string where
  "MULTISIG_INTERFACES_EXECUTE = ''0x6a761202''"


record MultisigConfig =
  owners :: "string list"
  threshold :: nat

type_synonym multisigCache = "(string \<times> MultisigConfig) list"


text \<open>
  \<open>getTransactionHistory\<close> reads the block number and returns the empty list; it throws
  when the provider does (\<open>None\<close>).
\<close>

definition getTransactionHistory :: "env \<Rightarrow> string \<Rightarrow> unit list option" where
  "getTransactionHistory e address =
     (case getBlockNumber e of None \<Rightarrow> None | Some currentBlock \<Rightarrow> Some [])"






definition MULTISIG_REVOCATION_TOPIC :: log_filter where
  "MULTISIG_REVOCATION_TOPIC = ethers_id ''RevokeConfirmation(address,bytes32)''"




text \<open>The second check of \<open>detectAnomalousActivity\<close>: the direct execute call.\<close>

definition unauthorizedAccess :: "multisigCache \<Rightarrow> string \<Rightarrow> TransactionEvent \<Rightarrow> Finding list" where
  "unauthorizedAccess cache address txEvent =
     (if tx_to txEvent = Some address
         \<and> includes_str (tx_data txEvent) MULTISIG_INTERFACES_EXECUTE
      then
        (case Map_get cache address of
           None \<Rightarrow> []
         | Some cachedData \<Rightarrow>
             if toLowerCase (tx_from txEvent) \<notin> set (owners cachedData) then
               [fromObject ''Unauthorized Multisig Access Attempt''
                  ''Transaction to multisig from non-owner address''
                  ''MULTISIG-SECURITY-1'' Severity_High Type_Suspicious
                  [(''multisigAddress'', address), (''sender'', tx_from txEvent),
                   (''transactionHash'', tx_hash txEvent)]]
             else [])
      else [])"

text \<open>
  The whole body of \<open>detectAnomalousActivity\<close> is inside a \<open>try\<close>: an error of the
  history read or of \<open>filterLog\<close> ends the check with the findings pushed so far, which
  are none, since both come first.
\<close>

definition detectAnomalousActivity ::
  "filterLog_method \<Rightarrow> env \<Rightarrow> multisigCache \<Rightarrow> string \<Rightarrow> TransactionEvent \<Rightarrow> Finding list" where
  "detectAnomalousActivity filterLog e cache address txEvent =
     (case getTransactionHistory e address of
        None \<Rightarrow> []
      | Some history \<Rightarrow>
          (case filterLog txEvent MULTISIG_REVOCATION_TOPIC of
             Inl err \<Rightarrow> []
           | Inr revocationLogs \<Rightarrow>
           (if length revocationLogs > 2 then
              [fromObject ''Unusual Multisig Activity''
                 (''Multiple confirmation revocations ('' @ toString_nat (length revocationLogs)
                    @ '') in a single transaction'')
                 ''MULTISIG-ACTIVITY-1'' Severity_Medium Type_Suspicious
                 [(''multisigAddress'', address),
                  (''revocationCount'', toString_nat (length revocationLogs)),
                  (''transactionHash'', tx_hash txEvent)]]
            else [])
           @ unauthorizedAccess cache address txEvent))"





section \<open>Two-factor authentication detector\<close>

text \<open>The entries of \<open>HIGH_RISK_OPERATIONS\<close>, in the order of the object literal.\<close>

definition HIGH_RISK_OPERATIONS :: "(string \<times> string) list" where
  "HIGH_RISK_OPERATIONS =
     [(''TOKEN_TRANSFER'', ''0xa9059cbb''),
      (''TOKEN_APPROVE'', ''0x095ea7b3''),
      (''NFT_TRANSFER'', ''0x23b872dd''),
      (''NFT_APPROVE_ALL'', ''0xa22cb465''),
      (''SWAP_EXACT_ETH_FOR_TOKENS'', ''0x7ff36ab5''),
      (''SWAP_EXACT_TOKENS_FOR_ETH'', ''0x18cbafe5''),
      (''SEND_TRANSACTION'', ''0x3e54bacb''),
      (''EXECUTE_TRANSACTION'', ''0x6a761202''),
      (''DELEGATE'', ''0x5c19a95c''),
      (''PROTOCOL_UPGRADE'', ''0x3659cfe6'')]"

definition HIGH_RISK_VALUE_THRESHOLD :: nat where
  "HIGH_RISK_VALUE_THRESHOLD = 10 ^ 18"

record Pending2FATransaction =
  p_txHash :: string
  p_from :: string
  p_to :: string
  p_value :: nat
  p_operationType :: string
  p_timestamp :: nat

record User2FASettings =
  enabledFor :: "string list"
  valueThreshold :: nat
  lastVerification :: int

record TwoFactorAuthState =
  pending2FATransactions :: "(string \<times> Pending2FATransaction) list"
  usersWith2FA :: "string list"
  user2FASettings :: "(string \<times> User2FASettings) list"

definition noCallData :: "TransactionEvent \<Rightarrow> bool" where
  "noCallData txEvent = (no_to txEvent \<or> tx_data txEvent = [] \<or> tx_data txEvent = ''0x'')"

fun findOperationType :: "(string \<times> string) list \<Rightarrow> string \<Rightarrow> string" where
  "findOperationType [] functionSelector = ''unknown''"
| "findOperationType ((type, selector) # rest) functionSelector =
     (if functionSelector = selector then toLowerCase type
      else findOperationType rest functionSelector)"

definition identifyOperationType :: "TransactionEvent \<Rightarrow> string" where
  "identifyOperationType txEvent =
     (if noCallData txEvent then ''eth_transfer''
      else findOperationType HIGH_RISK_OPERATIONS (slice_0_10 (tx_data txEvent)))"

definition isHighRiskOperation :: "TransactionEvent \<Rightarrow> bool" where
  "isHighRiskOperation txEvent =
     (if noCallData txEvent then False
      else slice_0_10 (tx_data txEvent) \<in> set (map snd HIGH_RISK_OPERATIONS))"

definition TWO_FACTOR_AUTH_EVENT :: log_filter where
  "TWO_FACTOR_AUTH_EVENT = ethers_id ''AuthenticationRequired(address,bytes32,uint256)''"

definition TWO_FACTOR_AUTH_SUCCESS :: log_filter where
  "TWO_FACTOR_AUTH_SUCCESS = ethers_id ''AuthenticationSuccessful(address,bytes32)''"

definition TWO_FACTOR_AUTH_FAILED :: log_filter where
  "TWO_FACTOR_AUTH_FAILED = ethers_id ''AuthenticationFailed(address,bytes32,string)''"

definition authRequiredStep ::
  "TransactionEvent \<Rightarrow> TwoFactorAuthState \<Rightarrow> Log \<Rightarrow> Finding list \<times> TwoFactorAuthState" where
  "authRequiredStep txEvent st lg =
     (case args lg of
        AuthenticationRequired user operationId ts \<Rightarrow>
          ([fromObject ''2FA Authentication Required''
              ''Two-factor authentication required for transaction''
              ''2FA-REQUIRED-1'' Severity_Info Type_Info
              [(''user'', user), (''operationId'', operationId),
               (''timestamp'', toString_nat ts), (''txHash'', tx_hash txEvent)]],
           st\<lparr>pending2FATransactions :=
                Map_set (pending2FATransactions st) operationId
                  \<lparr>p_txHash = tx_hash txEvent, p_from = user, p_to = to_or_empty txEvent,
                   p_value = tx_value txEvent,
                   p_operationType = identifyOperationType txEvent, p_timestamp = ts\<rparr>\<rparr>)
      | _ \<Rightarrow> ([], st))"

definition authSuccessStep ::
  "env \<Rightarrow> TransactionEvent \<Rightarrow> TwoFactorAuthState \<Rightarrow> Log \<Rightarrow> Finding list \<times> TwoFactorAuthState" where
  "authSuccessStep e txEvent st lg =
     (case args lg of
        AuthenticationSuccessful user operationId \<Rightarrow>
          (let st1 =
                 (case Map_get (user2FASettings st) (toLowerCase user) of
                    None \<Rightarrow> st
                  | Some userSettings \<Rightarrow>
                      st\<lparr>user2FASettings :=
                           Map_set (user2FASettings st) (toLowerCase user)
                             (userSettings\<lparr>lastVerification := now e\<rparr>)\<rparr>);
               st2 = st1\<lparr>pending2FATransactions :=
                           Map_delete (pending2FATransactions st1) operationId\<rparr>
           in ([fromObject ''2FA Authentication Successful''
                  ''Two-factor authentication successful for operation''
                  ''2FA-SUCCESS-1'' Severity_Info Type_Info
                  [(''user'', user), (''operationId'', operationId),
                   (''txHash'', tx_hash txEvent)]],
               st2))
      | _ \<Rightarrow> ([], st))"

definition authFailedStep :: "TransactionEvent \<Rightarrow> Log \<Rightarrow> Finding list" where
  "authFailedStep txEvent lg =
     (case args lg of
        AuthenticationFailed user operationId reason \<Rightarrow>
          [fromObject ''2FA Authentication Failed''
             (''Two-factor authentication failed: '' @ reason)
             ''2FA-FAILED-1'' Severity_Medium Type_Suspicious
             [(''user'', user), (''operationId'', operationId), (''reason'', reason),
              (''txHash'', tx_hash txEvent)]]
      | _ \<Rightarrow> [])"

text \<open>
  \<open>process2FAEvents\<close> has no \<open>try\<close>: an error of one of its three calls of
  \<open>filterLog\<close> leaves the function at that point, with the state as the loops before it
  left it.
\<close>

definition process2FAEvents ::
  "filterLog_method \<Rightarrow> env \<Rightarrow> TwoFactorAuthState \<Rightarrow> TransactionEvent
     \<Rightarrow> (error + Finding list) \<times> TwoFactorAuthState" where
  "process2FAEvents filterLog e st txEvent =
     (case filterLog txEvent TWO_FACTOR_AUTH_EVENT of
        Inl err \<Rightarrow> (Inl err, st)
      | Inr authRequiredEvents \<Rightarrow>
          (case forEach (authRequiredStep txEvent) st authRequiredEvents of
             (f1, st1) \<Rightarrow>
               (case filterLog txEvent TWO_FACTOR_AUTH_SUCCESS of
                  Inl err \<Rightarrow> (Inl err, st1)
                | Inr authSuccessEvents \<Rightarrow>
                    (case forEach (authSuccessStep e txEvent) st1 authSuccessEvents of
                       (f2, st2) \<Rightarrow>
                         (case filterLog txEvent TWO_FACTOR_AUTH_FAILED of
                            Inl err \<Rightarrow> (Inl err, st2)
                          | Inr authFailedEvents \<Rightarrow>
                              (Inr (f1 @ f2 @ concat (map (authFailedStep txEvent) authFailedEvents)),
                               st2))))))"

text \<open>
  \<open>has2FAEvent\<close> is a disjunction of two calls of \<open>filterLog\<close>; the second is made only
  when the first returns no log.
\<close>

definition has2FAEvent :: "filterLog_method \<Rightarrow> TransactionEvent \<Rightarrow> error + bool" where
  "has2FAEvent filterLog txEvent =
     (case filterLog txEvent TWO_FACTOR_AUTH_EVENT of
        Inl err \<Rightarrow> Inl err
      | Inr authRequiredEvents \<Rightarrow>
          if length authRequiredEvents > 0 then Inr True
          else
            (case filterLog txEvent TWO_FACTOR_AUTH_SUCCESS of
               Inl err \<Rightarrow> Inl err
             | Inr authSuccessEvents \<Rightarrow> Inr (length authSuccessEvents > 0)))"

definition checkTransactionFor2FA ::
  "filterLog_method \<Rightarrow> env \<Rightarrow> TwoFactorAuthState \<Rightarrow> TransactionEvent \<Rightarrow> error + Finding list" where
  "checkTransactionFor2FA filterLog e st txEvent =
     (let sender = toLowerCase (tx_from txEvent) in
      if sender \<notin> set (usersWith2FA st) then Inr []
      else
        (case Map_get (user2FASettings st) sender of
           None \<Rightarrow> Inr []
         | Some settings \<Rightarrow>
             (let txValue = tx_value txEvent;
                  operationType = identifyOperationType txEvent;
                  requires2FA =
                    ((''all'' \<in> set (enabledFor settings)
                      \<or> operationType \<in> set (enabledFor settings))
                     \<and> txValue \<ge> valueThreshold settings)
              in
              if requires2FA then
                (let timeSinceLastVerification = now e - lastVerification settings in
                 if timeSinceLastVerification > 1800 then
                   (case has2FAEvent filterLog txEvent of
                      Inl err \<Rightarrow> Inl err
                    | Inr has \<Rightarrow>
                        if \<not> has then
                          Inr [fromObject ''Missing 2FA for High-Risk Transaction''
                                 ''Transaction requires 2FA but authentication was not performed''
                                 ''2FA-MISSING-1'' Severity_High Type_Suspicious
                                 [(''user'', tx_from txEvent),
                                  (''value'', toString_nat (tx_value txEvent)),
                                  (''operationType'', operationType),
                                  (''txHash'', tx_hash txEvent)]]
                        else Inr [])
                 else Inr [])
              else Inr [])))"

definition checkHighRiskOperations :: "TwoFactorAuthState \<Rightarrow> TransactionEvent \<Rightarrow> Finding list" where
  "checkHighRiskOperations st txEvent =
     (if tx_value txEvent < HIGH_RISK_VALUE_THRESHOLD \<and> \<not> isHighRiskOperation txEvent then []
      else
        let sender = toLowerCase (tx_from txEvent) in
        if sender \<notin> set (usersWith2FA st) then
          [fromObject ''2FA Recommended for User''
             ''User performed high-risk transaction without 2FA enabled''
             ''2FA-RECOMMENDED-1'' Severity_Medium Type_Info
             [(''user'', tx_from txEvent),
              (''value'', toString_nat (tx_value txEvent)),
              (''operationType'', identifyOperationType txEvent),
              (''txHash'', tx_hash txEvent)]]
        else [])"

definition TwoFactorAuthDetector_handleTransaction ::
  "filterLog_method \<Rightarrow> env \<Rightarrow> TwoFactorAuthState \<Rightarrow> TransactionEvent
     \<Rightarrow> (error + Finding list) \<times> TwoFactorAuthState" where
  "TwoFactorAuthDetector_handleTransaction filterLog e st txEvent =
     (case process2FAEvents filterLog e st txEvent of
        (Inl err, st') \<Rightarrow> (Inl err, st')
      | (Inr f1, st') \<Rightarrow>
          (case checkTransactionFor2FA filterLog e st' txEvent of
             Inl err \<Rightarrow> (Inl err, st')
           | Inr f2 \<Rightarrow> (Inr (f1 @ f2 @ checkHighRiskOperations st' txEvent), st')))"

text \<open>
  The state that the constructor builds with \<open>initializeDefaultSettings\<close>: two test
  addresses with 2FA for all operations above 0.1 ETH and no verification yet.
\<close>

definition initializeDefaultSettings :: TwoFactorAuthState where
  "initializeDefaultSettings =
     (let testAddresses =
            [''0x742d35Cc6634C0532925a3b844Bc454e4438f44e'',
             ''0x123d35Cc6634C0532925a3b844Bc454e4438f123'']
      in \<lparr>pending2FATransactions = [],
          usersWith2FA = map toLowerCase testAddresses,
          user2FASettings =
            map (\<lambda>address. (toLowerCase address,
                   \<lparr>enabledFor = [''all''], valueThreshold = 10 ^ 17, lastVerification = 0\<rparr>))
              testAddresses\<rparr>)"

section \<open>Example inputs\<close>

definition WETH :: string where
  "WETH = ''0xc02aaa39b223fe8d0a0e5c4f27ead9083c756cc2''"

definition USDC :: string where
  "USDC = ''0xa0b86991c6218b36c1d19d4a2e9eb0ce3606eb48''"

text \<open>
  A decoder that knows three pieces of call data: one ETH for at least 1900 USDC, 2000 USDC
  for at least 0.9 ETH, and one unit of USDC for at least two units of WETH.
\<close>

definition example_parse_V2 :: "string \<Rightarrow> decoded_swap option" where
  "example_parse_V2 d =
     (if d = ''0x7ff36ab5'' then
        Some (swapExactETHForTokens 1900000000 [WETH, USDC] ''0x00'' 0)
      else if d = ''0x18cbafe5'' then
        Some (swapExactTokensForETH 2000000000 900000000000000000 [USDC, WETH] ''0x00'' 0)
      else if d = ''0x38ed1739'' then
        Some (swapExactTokensForTokens 1 2 [USDC, WETH] ''0x00'' 0)
      else None)"

definition example_env :: env where
  "example_env =
     \<lparr>getCode = (\<lambda>a. None), getTransactionCount = (\<lambda>a. None), getFeeData = Some (Some 10),
      getBlockNumber = Some 2000, call_getOwners = (\<lambda>a. None),
      call_getThreshold = (\<lambda>a. None), parse_V2 = example_parse_V2, parse_V3 = (\<lambda>d. None),
      now = 1700000000, Number_toFixed2 = (\<lambda>r. []), Number_toString = (\<lambda>r. []),
      JSON_stringify = concat\<rparr>"

text \<open>A plain transfer with no recipient contract, at gas price 50.\<close>

definition example_tx :: TransactionEvent where
  "example_tx =
     \<lparr>tx_hash = ''0x00'', tx_from = ''0xaaa'', tx_to = None, tx_value = 0,
      tx_gasPrice = Some 50, tx_data = ''0x'', tx_blockNumber = 1000, tx_logs = [],
      tx_calls = [], tx_traces = [], tx_addresses = []\<rparr>"

text \<open>A call to the Uniswap V2 router in block 1000, at gas price 20.\<close>

definition swap_tx :: "string \<Rightarrow> string \<Rightarrow> string \<Rightarrow> nat \<Rightarrow> TransactionEvent" where
  "swap_tx hash sender d v =
     example_tx\<lparr>tx_hash := hash, tx_from := sender, tx_to := Some DEX_ROUTERS_UNISWAP_V2,
       tx_value := v, tx_gasPrice := Some 20, tx_data := d\<rparr>"

text \<open>
  The triple of the sandwich scenario in block 1000: sender \<open>0xaaa\<close> swaps ETH to USDC,
  sender \<open>0xbbb\<close> swaps ETH to USDC, and sender \<open>0xaaa\<close> swaps either USDC back to
  ETH (\<open>backrun_tx\<close>) or ETH to USDC once more (\<open>repeat_tx\<close>). \<open>stale_tx\<close> is a swap
  of block 850.
\<close>

definition frontrun_tx :: TransactionEvent where
  "frontrun_tx = swap_tx ''0x01'' ''0xaaa'' ''0x7ff36ab5'' 1000000000000000000"

definition victim_tx :: TransactionEvent where
  "victim_tx = swap_tx ''0x02'' ''0xbbb'' ''0x7ff36ab5'' 1000000000000000000"

definition backrun_tx :: TransactionEvent where
  "backrun_tx = swap_tx ''0x03'' ''0xaaa'' ''0x18cbafe5'' 0"

definition repeat_tx :: TransactionEvent where
  "repeat_tx = swap_tx ''0x03'' ''0xaaa'' ''0x7ff36ab5'' 1000000000000000000"

definition stale_tx :: TransactionEvent where
  "stale_tx =
     (swap_tx ''0x0f'' ''0xccc'' ''0x7ff36ab5'' 1000000000000000000)\<lparr>tx_blockNumber := 850\<rparr>"

text \<open>Two more swaps of block 850, by the senders \<open>0xccc\<close> and \<open>0xddd\<close>.\<close>

definition late_frontrun_tx :: TransactionEvent where
  "late_frontrun_tx =
     (swap_tx ''0x0d'' ''0xccc'' ''0x7ff36ab5'' 1000000000000000000)\<lparr>tx_blockNumber := 850\<rparr>"

definition late_victim_tx :: TransactionEvent where
  "late_victim_tx =
     (swap_tx ''0x0e'' ''0xddd'' ''0x7ff36ab5'' 1000000000000000000)\<lparr>tx_blockNumber := 850\<rparr>"

definition eth_to_usdc :: SwapData where
  "eth_to_usdc =
     \<lparr>sd_path = [WETH, USDC], sd_amountIn = 1000000000000000000,
      sd_amountOutMin = 1900000000,
      sd_slippage = toDouble (1 - toDouble (Number 1900000000 / Number 1000000000000000000))\<rparr>"

definition usdc_to_eth :: SwapData where
  "usdc_to_eth =
     \<lparr>sd_path = [USDC, WETH], sd_amountIn = 2000000000,
      sd_amountOutMin = 900000000000000000,
      sd_slippage = toDouble (1 - toDouble (Number 900000000000000000 / Number 2000000000))\<rparr>"

text \<open>
  A pending-swap window holding the first two swaps of block 1000 and the swap of
  block 850, which arrived after them.
\<close>

definition example_window :: pendingSwaps where
  "example_window =
     [(''0x01'', recordedSwap example_env frontrun_tx eth_to_usdc),
      (''0x02'', recordedSwap example_env victim_tx eth_to_usdc),
      (''0x0f'', recordedSwap example_env stale_tx eth_to_usdc)]"




text \<open>
  A multicall whose call data is the selector followed by 2496 zero bytes: 2500 bytes,
  5002 characters with the \<open>0x\<close> prefix.
\<close>

definition multicall_tx :: TransactionEvent where
  "multicall_tx =
     example_tx\<lparr>tx_to := Some ''0x1234'',
       tx_data := ''0xac9650d8'' @ replicate 4992 (CHR ''0''),
       tx_calls := [\<lparr>call_address = ''0x1234'', call = multicall\<rparr>]\<rparr>"

text \<open>A transfer of one ETH by the first test address of the 2FA detector.\<close>

definition transfer_2fa_tx :: TransactionEvent where
  "transfer_2fa_tx =
     example_tx\<lparr>tx_from := ''0x742d35Cc6634C0532925a3b844Bc454e4438f44e'',
       tx_to := Some ''0xbbb'', tx_value := 1000000000000000000\<rparr>"

text \<open>
  A multisig wallet with three owners, an address that is none of them, and a direct
  \<open>execTransaction\<close> call to the wallet.
\<close>

definition multisig_wallet :: string where
  "multisig_wallet = ''0x1111111111111111111111111111111111111111''"

definition multisig_owners :: "string list" where
  "multisig_owners =
     [''0x742d35cc6634c0532925a3b844bc454e4438f44e'',
      ''0x123d35cc6634c0532925a3b844bc454e4438f123'',
      ''0x00000000006c3852cbef3e08e8df289169ede581'']"

definition outsider :: string where
  "outsider = ''0x9999999999999999999999999999999999999999''"

definition example_cache :: multisigCache where
  "example_cache = [(multisig_wallet, \<lparr>owners = multisig_owners, threshold = 1\<rparr>)]"

definition exec_tx :: "string \<Rightarrow> TransactionEvent" where
  "exec_tx sender =
     example_tx\<lparr>tx_from := sender, tx_to := Some multisig_wallet, tx_data := ''0x6a761202'',
       tx_addresses := [sender, multisig_wallet]\<rparr>"


section \<open>Predicates for stating the properties\<close>

definition isSandwichFinding :: "Finding \<Rightarrow> bool" where
  "isSandwichFinding f = (alertId f = ''MEV-2'')"

text \<open>The transaction hashes that a sandwich finding names, in the order of its metadata.\<close>

definition sandwichLegs :: "Finding \<Rightarrow> string list" where
  "sandwichLegs f =
     map snd (filter (\<lambda>(k, v). k = ''victimTx'' \<or> k = ''frontrunTx'' \<or> k = ''backrunTx'')
       (metadata f))"

definition isSuspiciousMulticall :: "Finding \<Rightarrow> bool" where
  "isSuspiciousMulticall f = (alertId f = ''PHISHING-4'')"

text \<open>
  The number of bytes that the call data encodes: two hexadecimal digits a byte, after
  the \<open>0x\<close> prefix.
\<close>

definition callDataBytes :: "TransactionEvent \<Rightarrow> nat" where
  "callDataBytes txEvent = (length (tx_data txEvent) - 2) div 2"


section \<open>JavaScript numbers: rounding is monotone\<close>

lemma roundHalfEven_of_int [simp]: "roundHalfEven (of_int n) = n"
  by (simp add: roundHalfEven_def)

lemma roundHalfEven_range: "\<lfloor>x\<rfloor> \<le> roundHalfEven x \<and> roundHalfEven x \<le> \<lfloor>x\<rfloor> + 1"
  by (simp add: roundHalfEven_def Let_def)

lemma roundHalfEven_mono: "x \<le> y \<Longrightarrow> roundHalfEven x \<le> roundHalfEven y"
proof -
  assume xy: "x \<le> y"
  then have f: "\<lfloor>x\<rfloor> \<le> \<lfloor>y\<rfloor>" by (rule floor_mono)
  show ?thesis
  proof (cases "\<lfloor>x\<rfloor> = \<lfloor>y\<rfloor>")
    case True
    with xy have "x - of_int \<lfloor>x\<rfloor> \<le> y - of_int \<lfloor>y\<rfloor>" by simp
    with True show ?thesis by (auto simp add: roundHalfEven_def Let_def)
  next
    case False
    with f have "\<lfloor>x\<rfloor> + 1 \<le> \<lfloor>y\<rfloor>" by simp
    with roundHalfEven_range [of x] roundHalfEven_range [of y] show ?thesis by linarith
  qed
qed

lemma binaryExponent_bounds:
  assumes "0 < x"
  shows "2 powi (binaryExponent x) \<le> x \<and> x < 2 powi (binaryExponent x + 1)"
proof (cases "1 \<le> x")
  case True
  define n where "n = \<lfloor>x\<rfloor>"
  from True have n: "0 < n" by (simp add: n_def)
  from bitlen_bounds [OF n] have b: "2 ^ nat (bitlen n - 1) \<le> n" "n < 2 ^ nat (bitlen n)" by simp_all
  from n have bl: "1 \<le> bitlen n" using bitlen_eq_zero_iff [of n] bitlen_nonneg [of n] by linarith
  have e: "binaryExponent x = bitlen n - 1" using True by (simp add: binaryExponent_def n_def)
  have "(2::rat) powi (bitlen n - 1) = of_int (2 ^ nat (bitlen n - 1))"
    using bl by (simp add: power_int_def)
  also have "\<dots> \<le> of_int n" using b(1) by (simp only: of_int_le_iff)
  also have "\<dots> \<le> x" by (simp add: n_def)
  finally have lo: "2 powi (bitlen n - 1) \<le> x" .
  from b(2) have "n + 1 \<le> 2 ^ nat (bitlen n)" by simp
  then have "(of_int (n + 1) :: rat) \<le> of_int (2 ^ nat (bitlen n))" by (simp only: of_int_le_iff)
  moreover have "x < of_int (n + 1)" using floor_correct [of x] by (simp add: n_def)
  moreover have "(2::rat) powi (bitlen n) = of_int (2 ^ nat (bitlen n))"
    using bl by (simp add: power_int_def)
  ultimately have hi: "x < 2 powi (bitlen n)" by simp
  from lo hi e show ?thesis by simp
next
  case False
  define y where "y = 1 / x"
  define k where "k = \<lceil>y\<rceil> - 1"
  from False assms have y1: "1 < y" by (simp add: y_def)
  then have "1 < \<lceil>y\<rceil>" by (simp add: less_ceiling_iff)
  then have k: "0 < k" by (simp add: k_def)
  from bitlen_bounds [OF k] have b: "2 ^ nat (bitlen k - 1) \<le> k" "k < 2 ^ nat (bitlen k)" by simp_all
  from k have bl: "1 \<le> bitlen k" using bitlen_eq_zero_iff [of k] bitlen_nonneg [of k] by linarith
  have e: "binaryExponent x = - bitlen k" using False by (simp add: binaryExponent_def k_def y_def)
  have ky: "of_int k < y" "y \<le> of_int k + 1"
    by (simp_all add: k_def) (use ceiling_correct [of y] in linarith)+
  have p: "(0::rat) < 2 ^ nat (bitlen k)" "(0::rat) < 2 ^ nat (bitlen k - 1)" by simp_all
  from b(2) have "k + 1 \<le> 2 ^ nat (bitlen k)" by simp
  then have "(of_int (k + 1) :: rat) \<le> of_int (2 ^ nat (bitlen k))" by (simp only: of_int_le_iff)
  then have "of_int k + 1 \<le> (2::rat) ^ nat (bitlen k)" by simp
  with ky(2) have yhi: "y \<le> 2 ^ nat (bitlen k)" by linarith
  from b(1) have "(of_int (2 ^ nat (bitlen k - 1)) :: rat) \<le> of_int k" by (simp only: of_int_le_iff)
  then have "(2::rat) ^ nat (bitlen k - 1) \<le> of_int k" by simp
  with ky(1) have ylo: "2 ^ nat (bitlen k - 1) < y" by linarith
  have lo: "2 powi (- bitlen k) \<le> x"
  proof -
    have "(2::rat) powi bitlen k = 2 ^ nat (bitlen k)"
      using bl by (simp add: power_int_def)
    then have "2 powi (- bitlen k) = 1 / (2::rat) ^ nat (bitlen k)"
      by (simp add: power_int_minus_divide)
    also have "\<dots> \<le> 1 / y" using yhi y1 by (simp add: frac_le)
    also have "\<dots> = x" by (simp add: y_def)
    finally show ?thesis .
  qed
  have hi: "x < 2 powi (- bitlen k + 1)"
  proof -
    have "x = 1 / y" by (simp add: y_def)
    also have "\<dots> < 1 / (2::rat) ^ nat (bitlen k - 1)" using ylo p(2) by (simp add: frac_less2)
    also have "\<dots> = 2 powi (- bitlen k + 1)"
    proof -
      have "(2::rat) powi (bitlen k - 1) = 2 ^ nat (bitlen k - 1)"
        using bl by (simp add: power_int_def)
      moreover have "- bitlen k + 1 = - (bitlen k - 1)" by simp
      ultimately show ?thesis by (simp only: power_int_minus_divide)
    qed
    finally show ?thesis .
  qed
  from lo hi e show ?thesis by simp
qed


lemma roundPositive_bounds:
  assumes "0 < x"
  shows "2 powi (binaryExponent x) \<le> roundPositive x
       \<and> roundPositive x \<le> 2 powi (binaryExponent x + 1)"
proof -
  define e where "e = binaryExponent x"
  define u :: rat where "u = 2 powi (e - 52)"
  have u: "0 < u" by (simp add: u_def)
  from binaryExponent_bounds [OF assms] have b: "2 powi e \<le> x" "x < 2 powi (e + 1)"
    by (simp_all add: e_def)
  have pe: "(2::rat) powi e = 2 ^ 52 * u" "(2::rat) powi (e + 1) = 2 ^ 53 * u"
    by (simp_all add: u_def power_int_diff power_int_add)
  define lo :: int where "lo = 2 ^ 52"
  define hi :: int where "hi = 2 ^ 53"
  have c: "(of_int lo :: rat) = 2 ^ 52" "(of_int hi :: rat) = 2 ^ 53"
    by (simp_all add: lo_def hi_def)
  have "of_int lo \<le> x / u" using b(1) u by (simp add: c pe pos_le_divide_eq)
  from roundHalfEven_mono [OF this] have l: "lo \<le> roundHalfEven (x / u)"
    by (simp only: roundHalfEven_of_int)
  have "x / u \<le> of_int hi" using b(2) u by (simp add: c pe pos_divide_le_eq)
  from roundHalfEven_mono [OF this] have h: "roundHalfEven (x / u) \<le> hi"
    by (simp only: roundHalfEven_of_int)
  have r: "roundPositive x = of_int (roundHalfEven (x / u)) * u"
    by (simp add: roundPositive_def Let_def u_def e_def)
  from l have "(of_int lo :: rat) \<le> of_int (roundHalfEven (x / u))"
    by (simp only: of_int_le_iff)
  with u have 1: "2 powi e \<le> roundPositive x" by (simp add: r pe c)
  from h have "(of_int (roundHalfEven (x / u)) :: rat) \<le> of_int hi"
    by (simp only: of_int_le_iff)
  with u have 2: "roundPositive x \<le> 2 powi (e + 1)" by (simp add: r pe c)
  from 1 2 show ?thesis by (simp add: e_def)
qed

lemma roundPositive_pos: "0 < x \<Longrightarrow> 0 < roundPositive x"
proof -
  assume "0 < x"
  from roundPositive_bounds [OF this] have "2 powi (binaryExponent x) \<le> roundPositive x" by simp
  moreover have "(0::rat) < 2 powi (binaryExponent x)" by simp
  ultimately show ?thesis by linarith
qed

lemma roundPositive_mono:
  assumes "0 < x" and "x \<le> y"
  shows "roundPositive x \<le> roundPositive y"
proof -
  from assms have y: "0 < y" by simp
  note bx = binaryExponent_bounds [OF assms(1)] and by' = binaryExponent_bounds [OF y]
  have le: "binaryExponent x \<le> binaryExponent y"
  proof (rule ccontr)
    assume "\<not> binaryExponent x \<le> binaryExponent y"
    then have "binaryExponent y + 1 \<le> binaryExponent x" by simp
    then have "(2::rat) powi (binaryExponent y + 1) \<le> 2 powi (binaryExponent x)"
      by (intro power_int_increasing) simp_all
    with bx by' assms(2) show False by linarith
  qed
  show ?thesis
  proof (cases "binaryExponent x = binaryExponent y")
    case True
    define u :: rat where "u = 2 powi (binaryExponent y - 52)"
    have u: "0 < u" by (simp add: u_def)
    from assms(2) u have "x / u \<le> y / u" by (simp add: divide_right_mono)
    from roundHalfEven_mono [OF this]
    have "(of_int (roundHalfEven (x / u)) :: rat) \<le> of_int (roundHalfEven (y / u))"
      by (simp only: of_int_le_iff)
    with u show ?thesis by (simp add: roundPositive_def Let_def True u_def [symmetric])
  next
    case False
    with le have "binaryExponent x + 1 \<le> binaryExponent y" by simp
    then have "(2::rat) powi (binaryExponent x + 1) \<le> 2 powi (binaryExponent y)"
      by (intro power_int_increasing) simp_all
    with roundPositive_bounds [OF assms(1)] roundPositive_bounds [OF y] show ?thesis by linarith
  qed
qed

lemma toDouble_mono: "x \<le> y \<Longrightarrow> toDouble x \<le> toDouble y"
proof -
  assume xy: "x \<le> y"
  consider "0 < x" | "x = 0" | "x < 0" "y < 0" | "x < 0" "0 \<le> y" by linarith
  then show ?thesis
  proof cases
    case 1
    with xy roundPositive_mono [of x y] show ?thesis by (simp add: toDouble_def)
  next
    case 2
    with xy roundPositive_pos [of y] show ?thesis by (auto simp add: toDouble_def less_imp_le)
  next
    case 3
    with xy roundPositive_mono [of "- y" "- x"] show ?thesis by (simp add: toDouble_def)
  next
    case 4
    with roundPositive_pos [of "- x"] roundPositive_pos [of y] show ?thesis
      by (auto simp add: toDouble_def less_imp_le)
  qed
qed

lemma toDouble_0 [simp]: "toDouble 0 = 0"
  by (simp add: toDouble_def)

lemma toDouble_1 [simp]: "toDouble 1 = 1"
  by code_simp

text \<open>
  Rounding loses what lies below the last of the 53 bits: \<open>2^53 + 1\<close> becomes \<open>2^53\<close>,
  and the decimal \<open>0.001\<close> is the double just above one thousandth.
\<close>

lemma Number_rounds: "Number (2 ^ 53 + 1) = 2 ^ 53"
  by code_simp

lemma one_thousandth: "toDouble (1 / 1000) = 1152921504606847 / 1152921504606846976"
  by code_simp

lemma slippage_formula_bounds:
  assumes "0 < aIn"
  shows "toDouble (1 - toDouble (Number aOutMin / Number aIn)) \<le> 1
       \<and> (aOutMin \<le> aIn \<longrightarrow> 0 \<le> toDouble (1 - toDouble (Number aOutMin / Number aIn)))"
proof -
  define a where "a = Number aOutMin"
  define b where "b = Number aIn"
  have a: "0 \<le> a" using toDouble_mono [of 0 "of_nat aOutMin"] by (simp add: a_def Number_def)
  have b: "0 < b"
    using assms roundPositive_pos [of "of_nat aIn"] by (simp add: b_def Number_def toDouble_def)
  from a b have "0 \<le> a / b" by simp
  from toDouble_mono [OF this] have q0: "0 \<le> toDouble (a / b)" by simp
  then have "1 - toDouble (a / b) \<le> 1" by simp
  from toDouble_mono [OF this] have 1: "toDouble (1 - toDouble (a / b)) \<le> 1" by simp
  have 2: "0 \<le> toDouble (1 - toDouble (a / b))" if "aOutMin \<le> aIn"
  proof -
    from that have "a \<le> b" unfolding a_def b_def Number_def by (intro toDouble_mono) simp
    with b have "a / b \<le> 1" by simp
    from toDouble_mono [OF this] have "toDouble (a / b) \<le> 1" by simp
    then have "0 \<le> 1 - toDouble (a / b)" by simp
    from toDouble_mono [OF this] show ?thesis by simp
  qed
  from 1 2 show ?thesis by (simp add: a_def b_def)
qed

section \<open>MEV detector: gas price, slippage and the pending-swap window\<close>

lemma checkForHighGasPrice_iff:
  "tx_gasPrice t = Some g \<Longrightarrow> getFeeData e = Some (Some a) \<Longrightarrow>
   (checkForHighGasPrice e t \<noteq> []) = (0 < a \<and> 5 * a < g)"
  by (auto simp add: checkForHighGasPrice_def)

text \<open>
  C7 (gas price at exactly five times the average). The comment above the comparison
  announces a finding for a gas price five or more times the average; the comparison
  is strict. With an average of 10 and a gas price of 50 the detector returns no
  finding at all.
\<close>

theorem high_gas_price_at_five_times_average:
  "tx_gasPrice example_tx = Some 50 \<and> getFeeData example_env = Some (Some 10)
   \<and> fst (MEVDetector_handleTransaction example_env [] example_tx) = []"
  by code_simp

lemma parseSwapData_Some:
  "parseSwapData e t = Some sd \<Longrightarrow> 0 < sd_amountIn sd \<and> sd_path sd \<noteq> []"
  by (auto simp add: parseSwapData_def split: if_splits prod.splits)

text \<open>The example swaps, decoded.\<close>

lemma router_lower:
  "toLowerCase DEX_ROUTERS_UNISWAP_V2 = DEX_ROUTERS_UNISWAP_V2"
  "toLowerCase DEX_ROUTERS_UNISWAP_V3 = DEX_ROUTERS_UNISWAP_V3"
  "toLowerCase DEX_ROUTERS_SUSHISWAP = DEX_ROUTERS_SUSHISWAP"
  "toLowerCase DEX_ROUTERS_PANCAKESWAP = DEX_ROUTERS_PANCAKESWAP"
  by code_simp+

lemma router_nonempty: "DEX_ROUTERS_UNISWAP_V2 \<noteq> []"
  by (simp add: DEX_ROUTERS_UNISWAP_V2_def)

lemma swap_tx_simps:
  "tx_hash (swap_tx h s d v) = h" "tx_from (swap_tx h s d v) = s"
  "tx_value (swap_tx h s d v) = v" "tx_data (swap_tx h s d v) = d"
  "tx_blockNumber (swap_tx h s d v) = 1000" "no_to (swap_tx h s d v) = False"
  "to_or_empty (swap_tx h s d v) = DEX_ROUTERS_UNISWAP_V2"
  by (simp_all add: swap_tx_def example_tx_def no_to_def to_or_empty_def router_nonempty)

lemma blockNumber_irrelevant:
  "isSwapTransaction (t\<lparr>tx_blockNumber := b\<rparr>) = isSwapTransaction t"
  "parseSwapData e (t\<lparr>tx_blockNumber := b\<rparr>) = parseSwapData e t"
  by (simp_all add: isSwapTransaction_def parseSwapData_def decodeSwap_def Let_def no_to_def
      to_or_empty_def cong: if_cong option.case_cong decoded_swap.case_cong)

lemma swap_tx_isSwap:
  "isSwapTransaction (swap_tx h s d v) = list_ex (startsWith d) SWAP_FUNCTIONS"
  by (simp add: isSwapTransaction_def swap_tx_simps DEX_ROUTERS_def router_lower)

lemma swap_tx_decoded:
  "0 < v \<Longrightarrow> parseSwapData example_env (swap_tx h s ''0x7ff36ab5'' v)
     = Some \<lparr>sd_path = [WETH, USDC], sd_amountIn = v, sd_amountOutMin = 1900000000,
             sd_slippage = toDouble (1 - toDouble (Number 1900000000 / Number v))\<rparr>"
  "parseSwapData example_env (swap_tx h s ''0x18cbafe5'' v) = Some usdc_to_eth"
  "parseSwapData example_env (swap_tx h s ''0x38ed1739'' v)
     = Some \<lparr>sd_path = [USDC, WETH], sd_amountIn = 1, sd_amountOutMin = 2,
             sd_slippage = toDouble (1 - toDouble (Number 2 / Number 1))\<rparr>"
  by (simp_all add: parseSwapData_def decodeSwap_def Let_def swap_tx_simps router_lower
      slice_0_10_def example_env_def example_parse_V2_def usdc_to_eth_def)

lemma swap_example_facts:
  "isSwapTransaction frontrun_tx" "isSwapTransaction victim_tx"
  "isSwapTransaction backrun_tx" "isSwapTransaction repeat_tx"
  "parseSwapData example_env frontrun_tx = Some eth_to_usdc"
  "parseSwapData example_env victim_tx = Some eth_to_usdc"
  "parseSwapData example_env backrun_tx = Some usdc_to_eth"
  "parseSwapData example_env repeat_tx = Some eth_to_usdc"
  by (simp_all add: frontrun_tx_def victim_tx_def backrun_tx_def repeat_tx_def swap_tx_isSwap
      swap_tx_decoded SWAP_FUNCTIONS_def startsWith_def eth_to_usdc_def)

lemma late_swap_facts:
  "isSwapTransaction late_frontrun_tx" "isSwapTransaction late_victim_tx"
  "isSwapTransaction stale_tx"
  "parseSwapData example_env late_frontrun_tx = Some eth_to_usdc"
  "parseSwapData example_env late_victim_tx = Some eth_to_usdc"
  "parseSwapData example_env stale_tx = Some eth_to_usdc"
  by (simp_all add: late_frontrun_tx_def late_victim_tx_def stale_tx_def blockNumber_irrelevant
      swap_tx_isSwap swap_tx_decoded SWAP_FUNCTIONS_def startsWith_def eth_to_usdc_def)

lemma swap_example_fields:
  "tx_blockNumber frontrun_tx = 1000" "tx_blockNumber victim_tx = 1000"
  "tx_blockNumber backrun_tx = 1000" "tx_blockNumber repeat_tx = 1000"
  "tx_hash frontrun_tx = ''0x01''" "tx_hash victim_tx = ''0x02''"
  "tx_hash backrun_tx = ''0x03''" "tx_hash repeat_tx = ''0x03''"
  "tx_from frontrun_tx = ''0xaaa''" "tx_from victim_tx = ''0xbbb''"
  "tx_from backrun_tx = ''0xaaa''" "tx_from repeat_tx = ''0xaaa''"
  by (simp_all add: frontrun_tx_def victim_tx_def backrun_tx_def repeat_tx_def swap_tx_def
      example_tx_def)

lemma late_swap_fields:
  "tx_blockNumber late_frontrun_tx = 850" "tx_blockNumber late_victim_tx = 850"
  "tx_blockNumber stale_tx = 850"
  "tx_hash late_frontrun_tx = ''0x0d''" "tx_hash late_victim_tx = ''0x0e''"
  "tx_hash stale_tx = ''0x0f''"
  "tx_from late_frontrun_tx = ''0xccc''" "tx_from late_victim_tx = ''0xddd''"
  "tx_from stale_tx = ''0xccc''"
  by (simp_all add: late_frontrun_tx_def late_victim_tx_def stale_tx_def swap_tx_def
      example_tx_def)

lemma recordedSwap_simps:
  "blockNumber (recordedSwap e t sd) = tx_blockNumber t"
  "swap_from (recordedSwap e t sd) = tx_from t"
  "tokenPath (recordedSwap e t sd) = sd_path sd"
  by (simp_all add: recordedSwap_def)

lemma areSimilarPaths_same: "areSimilarPaths p p"
  by (simp add: areSimilarPaths_def)

text \<open>
  C3 as stated fails: a swap of one unit for at least two units decodes with
  \<open>amountIn = 1 > 0\<close> and slippage \<open>1 - 2/1 = -1\<close>, outside \<open>[0, 1]\<close>.
\<close>

theorem slippage_negative_counterexample:
  "map_option sd_amountIn (parseSwapData example_env (swap_tx ''0x01'' ''0xaaa'' ''0x38ed1739'' 0))
     = Some 1
   \<and> map_option sd_slippage (parseSwapData example_env (swap_tx ''0x01'' ''0xaaa'' ''0x38ed1739'' 0))
     = Some (- 1)"
proof -
  have v: "toDouble (1 - toDouble (Number 2 / Number 1)) = - 1"
    by code_simp
  show ?thesis using v by (simp add: swap_tx_decoded(3))
qed

text \<open>
  C3, amended: every decoded swap, its amounts being 256-bit unsigned integers, has
  \<open>amountIn > 0\<close> and a slippage of at most 1, and the slippage is at least 0 whenever
  \<open>amountOutMin \<le> amountIn\<close>.
\<close>

theorem slippage_bounds:
  assumes "parseSwapData e t = Some sd"
    and "sd_amountIn sd < 2 ^ 256" and "sd_amountOutMin sd < 2 ^ 256"
  shows "0 < sd_amountIn sd \<and> sd_slippage sd \<le> 1
       \<and> (sd_amountOutMin sd \<le> sd_amountIn sd \<longrightarrow> 0 \<le> sd_slippage sd)"
proof -
  from assms(1) obtain path aIn aOutMin
    where d: "decodeSwap e t = (path, aIn, aOutMin)" and pos: "0 < aIn"
      and sd: "sd = \<lparr>sd_path = path, sd_amountIn = aIn, sd_amountOutMin = aOutMin,
                     sd_slippage =
                       (if aOutMin > 0 then toDouble (1 - toDouble (Number aOutMin / Number aIn))
                        else 0)\<rparr>"
    by (auto simp add: parseSwapData_def split: if_splits prod.splits)
  from slippage_formula_bounds [OF pos, of aOutMin] pos show ?thesis
    by (simp add: sd)
qed

theorem slippage_bounds_witness:
  "parseSwapData example_env frontrun_tx = Some eth_to_usdc
   \<and> sd_amountIn eth_to_usdc = 1000000000000000000 \<and> sd_amountOutMin eth_to_usdc = 1900000000
   \<and> sd_slippage eth_to_usdc \<le> 1 \<and> 0 \<le> sd_slippage eth_to_usdc"
proof -
  have h: "parseSwapData example_env frontrun_tx = Some eth_to_usdc"
    by (rule swap_example_facts)
  have a: "sd_amountIn eth_to_usdc = 1000000000000000000"
    "sd_amountOutMin eth_to_usdc = 1900000000"
    by (simp_all add: eth_to_usdc_def)
  have b: "sd_amountIn eth_to_usdc < 2 ^ 256" "sd_amountOutMin eth_to_usdc < 2 ^ 256"
    by (simp_all add: a)
  from slippage_bounds [OF h b] show ?thesis using h a by simp
qed

lemma set_Map_set: "set (Map_set m k v) \<subseteq> insert (k, v) (set m)"
  by (induction m) (auto split: if_splits)

lemma set_cleanupOldSwaps: "set (cleanupOldSwaps m b) \<subseteq> set m"
  by (auto simp add: cleanupOldSwaps_def)

lemma snd_handle:
  "snd (MEVDetector_handleTransaction e m t) = snd (checkForSandwichAttacks e m t)"
  by (simp add: MEVDetector_handleTransaction_def Let_def split: prod.splits)

lemma snd_sandwich_cases:
  "snd (checkForSandwichAttacks e m t) = m \<or>
   (\<exists>sd. isSwapTransaction t \<and> parseSwapData e t = Some sd \<and>
      snd (checkForSandwichAttacks e m t) =
        cleanupOldSwaps (Map_set m (tx_hash t) (recordedSwap e t sd))
          (int (tx_blockNumber t) - 100))"
  by (auto simp add: checkForSandwichAttacks_def Let_def split: option.splits)

lemma handle_preserves:
  assumes "\<forall>(h, d) \<in> set m. 0 < amountIn d \<and> tokenPath d \<noteq> []"
  shows "\<forall>(h, d) \<in> set (snd (MEVDetector_handleTransaction e m t)).
           0 < amountIn d \<and> tokenPath d \<noteq> []"
proof -
  from snd_sandwich_cases [of e m t] show ?thesis
  proof
    assume "snd (checkForSandwichAttacks e m t) = m"
    with assms show ?thesis by (simp add: snd_handle)
  next
    assume "\<exists>sd. isSwapTransaction t \<and> parseSwapData e t = Some sd \<and>
      snd (checkForSandwichAttacks e m t) =
        cleanupOldSwaps (Map_set m (tx_hash t) (recordedSwap e t sd))
          (int (tx_blockNumber t) - 100)"
    then obtain sd where sd: "parseSwapData e t = Some sd"
      and eq: "snd (checkForSandwichAttacks e m t) =
        cleanupOldSwaps (Map_set m (tx_hash t) (recordedSwap e t sd))
          (int (tx_blockNumber t) - 100)" by blast
    from parseSwapData_Some [OF sd] have ok: "0 < sd_amountIn sd" "sd_path sd \<noteq> []" by simp_all
    show ?thesis
      unfolding snd_handle eq
      using assms ok set_cleanupOldSwaps [of "Map_set m (tx_hash t) (recordedSwap e t sd)"]
        set_Map_set [of m "tx_hash t" "recordedSwap e t sd"]
      by (fastforce simp add: recordedSwap_def)
  qed
qed

lemma run_preserves:
  "\<forall>(h, d) \<in> set m. 0 < amountIn d \<and> tokenPath d \<noteq> [] \<Longrightarrow>
   \<forall>(h, d) \<in> set (MEVDetector_run e m txs). 0 < amountIn d \<and> tokenPath d \<noteq> []"
proof (induction txs arbitrary: m)
  case Nil
  then show ?case by simp
next
  case (Cons t txs)
  from handle_preserves [OF Cons.prems]
  have "\<forall>(h, d) \<in> set (snd (MEVDetector_handleTransaction e m t)).
          0 < amountIn d \<and> tokenPath d \<noteq> []" .
  from Cons.IH [OF this] show ?case by simp
qed

text \<open>
  C10: after any sequence of calls of \<open>handleTransaction\<close> on a detector that starts
  with no pending swaps, every stored entry has \<open>amountIn > 0\<close> and a non-empty token
  path.
\<close>

theorem pendingSwaps_entries_well_formed:
  "(hash, data) \<in> set (MEVDetector_run e [] txs) \<Longrightarrow>
   0 < amountIn data \<and> tokenPath data \<noteq> []"
  using run_preserves [of "[]" e txs] by auto

theorem pendingSwaps_entries_well_formed_witness:
  "MEVDetector_run example_env []
     [swap_tx ''0x01'' ''0xaaa'' ''0x7ff36ab5'' 1000000000000000000, example_tx]
   = [(''0x01'',
       \<lparr>blockNumber = 1000, timestamp = 1700000000, swap_from = ''0xaaa'',
        tokenPath = [WETH, USDC], amountIn = 1000000000000000000,
        amountOutMin = 1900000000,
        slippage = toDouble (1 - toDouble (Number 1900000000 / Number 1000000000000000000))\<rparr>)]
   \<and> (0::nat) < 1000000000000000000 \<and> [WETH, USDC] \<noteq> []"
proof -
  let ?t = "swap_tx ''0x01'' ''0xaaa'' ''0x7ff36ab5'' 1000000000000000000"
  have s: "isSwapTransaction ?t"
    by (simp add: swap_tx_isSwap SWAP_FUNCTIONS_def startsWith_def)
  have n: "\<not> isSwapTransaction example_tx"
    by (simp add: isSwapTransaction_def example_tx_def no_to_def)
  have nw: "now example_env = 1700000000"
    by (simp add: example_env_def)
  have h: "MEVDetector_run example_env [] [?t, example_tx]
   = [(''0x01'',
       \<lparr>blockNumber = 1000, timestamp = 1700000000, swap_from = ''0xaaa'',
        tokenPath = [WETH, USDC], amountIn = 1000000000000000000,
        amountOutMin = 1900000000,
        slippage = toDouble (1 - toDouble (Number 1900000000 / Number 1000000000000000000))\<rparr>)]"
    using s n
    by (simp add: snd_handle checkForSandwichAttacks_def Let_def swap_tx_decoded(1)
        recordedSwap_def swap_tx_simps cleanupOldSwaps_def nw)
  have "(''0x01'',
       \<lparr>blockNumber = 1000, timestamp = 1700000000, swap_from = ''0xaaa'',
        tokenPath = [WETH, USDC], amountIn = 1000000000000000000,
        amountOutMin = 1900000000,
        slippage = toDouble (1 - toDouble (Number 1900000000 / Number 1000000000000000000))\<rparr>)
     \<in> set (MEVDetector_run example_env [] [?t, example_tx])"
    unfolding h by simp
  from pendingSwaps_entries_well_formed [OF this] show ?thesis using h by simp
qed

section \<open>MEV detector: eviction and sandwich correlation\<close>

lemma filter_none: "(\<And>x. x \<in> set xs \<Longrightarrow> \<not> P x) \<Longrightarrow> filter P xs = []"
  by (induction xs) auto

lemma filter_all: "(\<And>x. x \<in> set xs \<Longrightarrow> P x) \<Longrightarrow> filter P xs = xs"
  by (induction xs) auto

lemma sandwichLegs_sandwichFinding:
  "sandwichLegs (sandwichFinding e s1 s2 s3) = [fst s2, fst s1, fst s3]"
  by (simp add: sandwichLegs_def sandwichFinding_def fromObject_def)

lemma sandwichScan_legs:
  "f \<in> set (sandwichScan e swaps) \<Longrightarrow> set (sandwichLegs f) \<subseteq> fst ` set swaps"
proof (induction e swaps rule: sandwichScan.induct)
  case (1 e swap1 swap2 swap3 rest)
  from "1.prems" have "f = sandwichFinding e swap1 swap2 swap3
      \<or> f \<in> set (sandwichScan e (swap2 # swap3 # rest))"
    by (auto split: if_splits)
  then show ?case
  proof
    assume "f = sandwichFinding e swap1 swap2 swap3"
    then show ?thesis by (simp add: sandwichLegs_sandwichFinding)
  next
    assume "f \<in> set (sandwichScan e (swap2 # swap3 # rest))"
    from "1.IH" [OF this] show ?thesis by auto
  qed
qed simp_all

lemma sandwichScan_alertId:
  "f \<in> set (sandwichScan e swaps) \<Longrightarrow> isSandwichFinding f"
  by (induction e swaps rule: sandwichScan.induct)
     (auto simp add: isSandwichFinding_def sandwichFinding_def fromObject_def split: if_splits)

lemma highGas_alertId: "f \<in> set (checkForHighGasPrice e t) \<Longrightarrow> alertId f = ''MEV-1''"
  by (auto simp add: checkForHighGasPrice_def fromObject_def Let_def
      split: option.splits if_splits)

lemma lowSlippage_alertId:
  "f \<in> set (checkForLowSlippageTolerance e t) \<Longrightarrow> alertId f = ''MEV-3''"
  by (auto simp add: checkForLowSlippageTolerance_def fromObject_def
      split: option.splits if_splits)

lemma unusualRoute_alertId:
  "f \<in> set (checkForUnusualSwapRoutes e t) \<Longrightarrow> alertId f = ''MEV-4''"
  by (auto simp add: checkForUnusualSwapRoutes_def fromObject_def
      split: option.splits if_splits)

lemma fst_handle:
  "fst (MEVDetector_handleTransaction e m t) =
     checkForHighGasPrice e t @ fst (checkForSandwichAttacks e m t)
     @ checkForLowSlippageTolerance e t @ checkForUnusualSwapRoutes e t"
  by (simp add: MEVDetector_handleTransaction_def Let_def split: prod.splits)

lemma sandwich_decoded:
  "isSwapTransaction t \<Longrightarrow> parseSwapData e t = Some sd \<Longrightarrow>
   checkForSandwichAttacks e m t =
     (let m2 = cleanupOldSwaps (Map_set m (tx_hash t) (recordedSwap e t sd))
                 (int (tx_blockNumber t) - 100);
          swaps = currentBlockSwaps m2 t
      in ((if length swaps \<ge> 3 then sandwichScan e swaps else []), m2))"
  by (simp add: checkForSandwichAttacks_def Let_def)

lemma sandwich_filter_handle:
  "filter isSandwichFinding (fst (MEVDetector_handleTransaction e m t))
     = fst (checkForSandwichAttacks e m t)"
proof -
  have 1: "filter isSandwichFinding (checkForHighGasPrice e t) = []"
    by (rule filter_none) (auto simp add: isSandwichFinding_def dest: highGas_alertId)
  have 3: "filter isSandwichFinding (checkForLowSlippageTolerance e t) = []"
    by (rule filter_none) (auto simp add: isSandwichFinding_def dest: lowSlippage_alertId)
  have 4: "filter isSandwichFinding (checkForUnusualSwapRoutes e t) = []"
    by (rule filter_none) (auto simp add: isSandwichFinding_def dest: unusualRoute_alertId)
  have 2: "filter isSandwichFinding (fst (checkForSandwichAttacks e m t))
             = fst (checkForSandwichAttacks e m t)"
    by (rule filter_all)
       (auto simp add: checkForSandwichAttacks_def Let_def
             dest: sandwichScan_alertId split: if_splits option.splits)
  show ?thesis by (simp add: fst_handle 1 2 3 4)
qed

lemma sandwich_findings_legs:
  assumes "f \<in> set (fst (checkForSandwichAttacks e m t))" and "h \<in> set (sandwichLegs f)"
  shows "\<exists>d. (h, d) \<in> set (snd (checkForSandwichAttacks e m t))
           \<and> blockNumber d = tx_blockNumber t"
proof -
  from assms(1) obtain sd where dec: "isSwapTransaction t" "parseSwapData e t = Some sd"
    by (auto simp add: checkForSandwichAttacks_def split: if_splits option.splits)
  define m2 where "m2 = snd (checkForSandwichAttacks e m t)"
  from dec assms(1) have "f \<in> set (sandwichScan e (currentBlockSwaps m2 t))"
    by (auto simp add: m2_def checkForSandwichAttacks_def Let_def split: if_splits)
  from sandwichScan_legs [OF this] assms(2) have "h \<in> fst ` set (currentBlockSwaps m2 t)"
    by blast
  then show ?thesis
    unfolding m2_def [symmetric] by (auto simp add: currentBlockSwaps_def)
qed

lemma cleanup_bound:
  "(h, d) \<in> set (cleanupOldSwaps m b) \<Longrightarrow> b \<le> int (blockNumber d)"
  by (auto simp add: cleanupOldSwaps_def)

lemma handle_swap:
  assumes "isSwapTransaction t" and "parseSwapData e t = Some sd"
  shows "snd (MEVDetector_handleTransaction e m t)
           = cleanupOldSwaps (Map_set m (tx_hash t) (recordedSwap e t sd))
               (int (tx_blockNumber t) - 100)"
    and "filter isSandwichFinding (fst (MEVDetector_handleTransaction e m t))
           = (let swaps =
                    currentBlockSwaps
                      (cleanupOldSwaps (Map_set m (tx_hash t) (recordedSwap e t sd))
                         (int (tx_blockNumber t) - 100)) t
              in if length swaps \<ge> 3 then sandwichScan e swaps else [])"
  using assms by (simp_all add: snd_handle sandwich_filter_handle sandwich_decoded Let_def)

text \<open>
  C4 as stated fails for the calls that follow. The detector tracks no newest block:
  the bound of the eviction is the block of the transaction in hand. After a swap of
  block 1000, three swaps of block 850 are stored, although 850 is below 1000 - 100,
  and the third of these calls correlates them into a sandwich finding.
\<close>

theorem late_swaps_correlated_counterexample:
  "map (\<lambda>(h, d). (h, blockNumber d))
     (MEVDetector_run example_env [] [frontrun_tx, late_frontrun_tx, late_victim_tx, stale_tx])
     = [(''0x01'', 1000), (''0x0d'', 850), (''0x0e'', 850), (''0x0f'', 850)]
   \<and> map sandwichLegs
        (filter isSandwichFinding
           (fst (MEVDetector_handleTransaction example_env
                  (MEVDetector_run example_env [] [frontrun_tx, late_frontrun_tx, late_victim_tx])
                  stale_tx)))
     = [[''0x0e'', ''0x0d'', ''0x0f'']]"
proof -
  note h1 = handle_swap [OF swap_example_facts(1) swap_example_facts(5)]
    and h2 = handle_swap [OF late_swap_facts(1) late_swap_facts(4)]
    and h3 = handle_swap [OF late_swap_facts(2) late_swap_facts(5)]
    and h4 = handle_swap [OF late_swap_facts(3) late_swap_facts(6)]
  have m3: "MEVDetector_run example_env [] [frontrun_tx, late_frontrun_tx, late_victim_tx]
      = [(''0x01'', recordedSwap example_env frontrun_tx eth_to_usdc),
         (''0x0d'', recordedSwap example_env late_frontrun_tx eth_to_usdc),
         (''0x0e'', recordedSwap example_env late_victim_tx eth_to_usdc)]"
    by (simp add: h1(1) h2(1) h3(1) cleanupOldSwaps_def recordedSwap_simps swap_example_fields
        late_swap_fields)
  have m4: "MEVDetector_run example_env []
        [frontrun_tx, late_frontrun_tx, late_victim_tx, stale_tx]
      = [(''0x01'', recordedSwap example_env frontrun_tx eth_to_usdc),
         (''0x0d'', recordedSwap example_env late_frontrun_tx eth_to_usdc),
         (''0x0e'', recordedSwap example_env late_victim_tx eth_to_usdc),
         (''0x0f'', recordedSwap example_env stale_tx eth_to_usdc)]"
    by (simp add: h1(1) h2(1) h3(1) h4(1) cleanupOldSwaps_def recordedSwap_simps
        swap_example_fields late_swap_fields)
  have legs: "map sandwichLegs
        (filter isSandwichFinding
           (fst (MEVDetector_handleTransaction example_env
                  (MEVDetector_run example_env [] [frontrun_tx, late_frontrun_tx, late_victim_tx])
                  stale_tx)))
     = [[''0x0e'', ''0x0d'', ''0x0f'']]"
    unfolding m3 h4(2)
    by (simp add: cleanupOldSwaps_def currentBlockSwaps_def recordedSwap_simps
        swap_example_fields late_swap_fields areSimilarPaths_same sandwichLegs_sandwichFinding)
  show ?thesis
    unfolding m4 using legs by (simp add: recordedSwap_simps swap_example_fields late_swap_fields)
qed

text \<open>
  C4, amended: after a call on a decodable swap transaction of block \<open>B\<close>, no stored
  entry has a block number below \<open>B - 100\<close>; and on every call, whatever the state
  before it, every transaction that a sandwich finding of the call names is a stored
  entry whose block number is the block number of the transaction in hand, so no entry
  more than 100 blocks older than that transaction takes part in the correlation.
\<close>

theorem old_swaps_evicted_and_not_correlated:
  assumes "isSwapTransaction t" and "parseSwapData e t = Some sd"
  shows "(\<forall>(h, d) \<in> set (snd (MEVDetector_handleTransaction e m t)).
            int (tx_blockNumber t) - 100 \<le> int (blockNumber d))
       \<and> (\<forall>f \<in> set (fst (MEVDetector_handleTransaction e m t)). isSandwichFinding f \<longrightarrow>
            (\<forall>h \<in> set (sandwichLegs f).
               \<exists>d. (h, d) \<in> set (snd (MEVDetector_handleTransaction e m t))
                    \<and> blockNumber d = tx_blockNumber t))"
proof
  from assms have "snd (MEVDetector_handleTransaction e m t) =
        cleanupOldSwaps (Map_set m (tx_hash t) (recordedSwap e t sd))
          (int (tx_blockNumber t) - 100)"
    by (simp add: snd_handle checkForSandwichAttacks_def Let_def)
  then show "\<forall>(h, d) \<in> set (snd (MEVDetector_handleTransaction e m t)).
            int (tx_blockNumber t) - 100 \<le> int (blockNumber d)"
    using cleanup_bound by fastforce
next
  have "\<And>f. f \<in> set (fst (MEVDetector_handleTransaction e m t)) \<Longrightarrow> isSandwichFinding f \<Longrightarrow>
          f \<in> set (fst (checkForSandwichAttacks e m t))"
  proof -
    fix f
    assume "f \<in> set (fst (MEVDetector_handleTransaction e m t))" and "isSandwichFinding f"
    then have "f \<in> set (filter isSandwichFinding (fst (MEVDetector_handleTransaction e m t)))"
      by simp
    then show "f \<in> set (fst (checkForSandwichAttacks e m t))"
      by (simp only: sandwich_filter_handle)
  qed
  then show "\<forall>f \<in> set (fst (MEVDetector_handleTransaction e m t)). isSandwichFinding f \<longrightarrow>
            (\<forall>h \<in> set (sandwichLegs f).
               \<exists>d. (h, d) \<in> set (snd (MEVDetector_handleTransaction e m t))
                    \<and> blockNumber d = tx_blockNumber t)"
    using sandwich_findings_legs unfolding snd_handle by blast
qed

lemma example_window_reached:
  "MEVDetector_run example_env [] [frontrun_tx, victim_tx, stale_tx] = example_window"
proof -
  note h1 = handle_swap [OF swap_example_facts(1) swap_example_facts(5)]
    and h2 = handle_swap [OF swap_example_facts(2) swap_example_facts(6)]
    and h3 = handle_swap [OF late_swap_facts(3) late_swap_facts(6)]
  show ?thesis
    by (simp add: h1(1) h2(1) h3(1) cleanupOldSwaps_def recordedSwap_simps swap_example_fields
        late_swap_fields example_window_def)
qed

theorem old_swaps_evicted_and_not_correlated_witness:
  "isSwapTransaction repeat_tx \<and> parseSwapData example_env repeat_tx = Some eth_to_usdc
   \<and> map (\<lambda>(h, d). (h, blockNumber d)) example_window
       = [(''0x01'', 1000), (''0x02'', 1000), (''0x0f'', 850)]
   \<and> map (\<lambda>(h, d). (h, blockNumber d))
         (snd (MEVDetector_handleTransaction example_env example_window repeat_tx))
       = [(''0x01'', 1000), (''0x02'', 1000), (''0x03'', 1000)]
   \<and> map sandwichLegs
         (filter isSandwichFinding
            (fst (MEVDetector_handleTransaction example_env example_window repeat_tx)))
       = [[''0x02'', ''0x01'', ''0x03'']]"
proof -
  note h = handle_swap [OF swap_example_facts(4) swap_example_facts(8), of example_window]
  have ev: "map (\<lambda>(h, d). (h, blockNumber d)) example_window
       = [(''0x01'', 1000), (''0x02'', 1000), (''0x0f'', 850)]
   \<and> map (\<lambda>(h, d). (h, blockNumber d))
         (snd (MEVDetector_handleTransaction example_env example_window repeat_tx))
       = [(''0x01'', 1000), (''0x02'', 1000), (''0x03'', 1000)]
   \<and> map sandwichLegs
         (filter isSandwichFinding
            (fst (MEVDetector_handleTransaction example_env example_window repeat_tx)))
       = [[''0x02'', ''0x01'', ''0x03'']]"
    unfolding h
    by (simp add: example_window_def cleanupOldSwaps_def currentBlockSwaps_def
        recordedSwap_simps swap_example_fields late_swap_fields areSimilarPaths_same
        sandwichLegs_sandwichFinding)
  from old_swaps_evicted_and_not_correlated
         [OF swap_example_facts(4) swap_example_facts(8), of example_window]
  show ?thesis using ev swap_example_facts(4) swap_example_facts(8) by simp
qed

lemma triple_scan_result:
  assumes swaps: "isSwapTransaction t1" "isSwapTransaction t2" "isSwapTransaction t3"
    and dec: "parseSwapData e t1 = Some sd1" "parseSwapData e t2 = Some sd2"
      "parseSwapData e t3 = Some sd3"
    and blk: "tx_blockNumber t1 = N" "tx_blockNumber t2 = N" "tx_blockNumber t3 = N"
    and hashes: "distinct [tx_hash t1, tx_hash t2, tx_hash t3]"
    and senders: "tx_from t1 = A" "tx_from t2 = B" "tx_from t3 = A" "A \<noteq> B"
  shows "filter isSandwichFinding
           (fst (MEVDetector_handleTransaction e (MEVDetector_run e [] [t1, t2]) t3))
         = (if areSimilarPaths (sd_path sd1) (sd_path sd3) then
              [sandwichFinding e (tx_hash t1, recordedSwap e t1 sd1)
                 (tx_hash t2, recordedSwap e t2 sd2) (tx_hash t3, recordedSwap e t3 sd3)]
            else [])"
proof -
  have b: "blockNumber (recordedSwap e t1 sd1) = N" "blockNumber (recordedSwap e t2 sd2) = N"
    "blockNumber (recordedSwap e t3 sd3) = N"
    using blk by (simp_all add: recordedSwap_def)
  have m1: "snd (checkForSandwichAttacks e [] t1) = [(tx_hash t1, recordedSwap e t1 sd1)]"
    using swaps(1) dec(1) blk(1) b(1)
    by (simp add: sandwich_decoded Let_def cleanupOldSwaps_def)
  have m2: "MEVDetector_run e [] [t1, t2]
              = [(tx_hash t1, recordedSwap e t1 sd1), (tx_hash t2, recordedSwap e t2 sd2)]"
    using swaps(2) dec(2) blk(2) b hashes
    by (simp add: m1 snd_handle sandwich_decoded Let_def cleanupOldSwaps_def)
  have "fst (checkForSandwichAttacks e (MEVDetector_run e [] [t1, t2]) t3)
          = sandwichScan e [(tx_hash t1, recordedSwap e t1 sd1),
               (tx_hash t2, recordedSwap e t2 sd2), (tx_hash t3, recordedSwap e t3 sd3)]"
    using swaps(3) dec(3) blk(3) b hashes unfolding m2
    by (simp add: sandwich_decoded Let_def cleanupOldSwaps_def currentBlockSwaps_def)
  then show ?thesis
    using senders by (simp add: sandwich_filter_handle recordedSwap_def)
qed

text \<open>
  C2 as stated fails. With sender \<open>0xaaa\<close> swapping ETH to USDC, sender \<open>0xbbb\<close>
  swapping ETH to USDC and sender \<open>0xaaa\<close> swapping USDC back to ETH, all decodable and
  in block 1000, the third call returns no sandwich finding: the token path of the third
  swap starts with USDC and the path of the first with WETH.
\<close>

theorem sandwich_reverse_path_counterexample:
  "map_option sd_path (parseSwapData example_env frontrun_tx) = Some [WETH, USDC]
   \<and> map_option sd_path (parseSwapData example_env victim_tx) = Some [WETH, USDC]
   \<and> map_option sd_path (parseSwapData example_env backrun_tx) = Some [USDC, WETH]
   \<and> filter isSandwichFinding
        (fst (MEVDetector_handleTransaction example_env
               (MEVDetector_run example_env [] [frontrun_tx, victim_tx]) backrun_tx)) = []"
proof -
  have "\<not> areSimilarPaths (sd_path eth_to_usdc) (sd_path usdc_to_eth)"
    by (simp add: eth_to_usdc_def usdc_to_eth_def areSimilarPaths_def js_index_def WETH_def
        USDC_def)
  with triple_scan_result [OF swap_example_facts(1,2,3,5,6,7), of 1000 "''0xaaa''" "''0xbbb''"]
  show ?thesis
    by (simp add: swap_example_fields swap_example_facts eth_to_usdc_def usdc_to_eth_def)
qed

text \<open>
  C2, amended: from the empty state, three decodable swap transactions of one block with
  distinct hashes, the first and the third from sender \<open>A\<close> and the second from another
  sender \<open>B\<close>, make the third call return exactly one sandwich finding (severity High,
  naming the second transaction as the victim and the first and third as the front-run
  and back-run) when the token paths of the first and the third swap have the same
  length, the same first token and the same last token, as when \<open>A\<close> swaps ETH to USDC
  twice; otherwise the third call returns no sandwich finding.
\<close>

theorem sandwich_triple:
  assumes "isSwapTransaction t1" "isSwapTransaction t2" "isSwapTransaction t3"
    and "parseSwapData e t1 = Some sd1" "parseSwapData e t2 = Some sd2"
      "parseSwapData e t3 = Some sd3"
    and "tx_blockNumber t1 = N" "tx_blockNumber t2 = N" "tx_blockNumber t3 = N"
    and "distinct [tx_hash t1, tx_hash t2, tx_hash t3]"
    and "tx_from t1 = A" "tx_from t2 = B" "tx_from t3 = A" "A \<noteq> B"
  shows "filter isSandwichFinding
           (fst (MEVDetector_handleTransaction e (MEVDetector_run e [] [t1, t2]) t3))
         = (if areSimilarPaths (sd_path sd1) (sd_path sd3) then
              [sandwichFinding e (tx_hash t1, recordedSwap e t1 sd1)
                 (tx_hash t2, recordedSwap e t2 sd2) (tx_hash t3, recordedSwap e t3 sd3)]
            else [])"
  using assms by (rule triple_scan_result)

theorem sandwich_triple_witness:
  "filter isSandwichFinding
     (fst (MEVDetector_handleTransaction example_env
            (MEVDetector_run example_env [] [frontrun_tx, victim_tx]) repeat_tx))
   = [fromObject ''Potential Sandwich Attack''
        ''Pattern of transactions consistent with a sandwich attack detected''
        ''MEV-2'' Severity_High Type_Suspicious
        [(''victimTx'', ''0x02''), (''frontrunTx'', ''0x01''), (''backrunTx'', ''0x03''),
         (''attacker'', ''0xaaa''), (''victim'', ''0xbbb''), (''tokenPath'', WETH @ USDC)]]"
proof -
  have sim: "areSimilarPaths (sd_path eth_to_usdc) (sd_path eth_to_usdc)"
    by (rule areSimilarPaths_same)
  have hs: "distinct [tx_hash frontrun_tx, tx_hash victim_tx, tx_hash repeat_tx]"
    by (simp add: swap_example_fields)
  have ne: "''0xaaa'' \<noteq> ''0xbbb''" by simp
  have f: "sandwichFinding example_env (tx_hash frontrun_tx, recordedSwap example_env frontrun_tx eth_to_usdc)
        (tx_hash victim_tx, recordedSwap example_env victim_tx eth_to_usdc)
        (tx_hash repeat_tx, recordedSwap example_env repeat_tx eth_to_usdc)
     = fromObject ''Potential Sandwich Attack''
        ''Pattern of transactions consistent with a sandwich attack detected''
        ''MEV-2'' Severity_High Type_Suspicious
        [(''victimTx'', ''0x02''), (''frontrunTx'', ''0x01''), (''backrunTx'', ''0x03''),
         (''attacker'', ''0xaaa''), (''victim'', ''0xbbb''), (''tokenPath'', WETH @ USDC)]"
    by (simp add: sandwichFinding_def recordedSwap_def swap_example_fields eth_to_usdc_def
        example_env_def)
  from sandwich_triple [OF swap_example_facts(1,2,4,5,6,8) swap_example_fields(1,2,4) hs
         swap_example_fields(9,10,12) ne]
  show ?thesis using sim f by simp
qed

section \<open>The three detectors that call filterLog\<close>

text \<open>
  The approval, the multisig and the 2FA detector pass topic hashes to \<open>filterLog\<close>.
  With the method of the agent library every call of their \<open>handleTransaction\<close> is
  rejected, for every event, environment and state.
\<close>

lemma forta_filterLog_topic: "forta_filterLog t (ethers_id signature) = Inl UnsupportedFragment"
  by (simp add: forta_filterLog_def ethers_id_def)



lemma twoFactorAuth_detector_rejects:
  "TwoFactorAuthDetector_handleTransaction forta_filterLog e st t = (Inl UnsupportedFragment, st)"
  by (simp add: TwoFactorAuthDetector_handleTransaction_def process2FAEvents_def
      TWO_FACTOR_AUTH_EVENT_def forta_filterLog_topic)

section \<open>Approval detector: transactions without findings\<close>











section \<open>Phishing detector: the multicall check\<close>

lemma approvalCallStep_alertId:
  "f \<in> set (approvalCallStep e t c) \<Longrightarrow> \<not> isSuspiciousMulticall f"
  by (auto simp add: approvalCallStep_def isSuspiciousMulticall_def fromObject_def Let_def
      split: call_args.splits if_splits)

lemma delegateCallStep_alertId:
  "f \<in> set (delegateCallStep e t c) \<Longrightarrow> \<not> isSuspiciousMulticall f"
  by (auto simp add: delegateCallStep_def isSuspiciousMulticall_def fromObject_def Let_def
      split: call_args.splits if_splits)

lemma filter_concat_none:
  "(\<And>x y. x \<in> set xs \<Longrightarrow> y \<in> set (g x) \<Longrightarrow> \<not> P y) \<Longrightarrow> filter P (concat (map g xs)) = []"
  by (induction xs) (auto simp add: filter_empty_conv)

lemma suspicious_multicall_filter:
  "filter isSuspiciousMulticall (PhishingDetector_handleTransaction e t)
     = (if filterFunction t isMulticallCall \<noteq> [] \<and> 5000 < length (tx_data t) then
          [fromObject ''Suspicious Multicall'' ''Large data multicall transaction detected''
             ''PHISHING-4'' Severity_Medium Type_Suspicious
             [(''contract'', to_or_empty t), (''from'', tx_from t),
              (''dataLength'', toString_nat (length (tx_data t)))]]
        else [])"
proof -
  have 1: "filter isSuspiciousMulticall (checkKnownPhishingAddresses t) = []"
    by (simp add: checkKnownPhishingAddresses_def isSuspiciousMulticall_def fromObject_def Let_def)
  have 2: "filter isSuspiciousMulticall
             (concat (map (approvalCallStep e t) (filterFunction t isApprovalCall))) = []"
    by (rule filter_concat_none) (rule approvalCallStep_alertId)
  have 3: "filter isSuspiciousMulticall (checkForFrontrunning t) = []"
    by (simp add: checkForFrontrunning_def isSuspiciousMulticall_def fromObject_def
        split: option.splits)
  have 4: "filter isSuspiciousMulticall (checkSuspiciousDelegation e t) = []"
    unfolding checkSuspiciousDelegation_def
    by (rule filter_concat_none) (rule delegateCallStep_alertId)
  have 5: "filter isSuspiciousMulticall (checkInteractionWithRecentContracts e t) = []"
    by (simp add: checkInteractionWithRecentContracts_def isSuspiciousMulticall_def
        fromObject_def Let_def)
  have 6: "filter isSuspiciousMulticall (suspiciousMulticall t)
     = (if filterFunction t isMulticallCall \<noteq> [] \<and> 5000 < length (tx_data t) then
          [fromObject ''Suspicious Multicall'' ''Large data multicall transaction detected''
             ''PHISHING-4'' Severity_Medium Type_Suspicious
             [(''contract'', to_or_empty t), (''from'', tx_from t),
              (''dataLength'', toString_nat (length (tx_data t)))]]
        else [])"
    by (simp add: suspiciousMulticall_def isSuspiciousMulticall_def fromObject_def Let_def
        LONG_DATA_THRESHOLD_def)
  show ?thesis
    unfolding PhishingDetector_handleTransaction_def checkSuspiciousTokenOperations_def
      filter_append 1 2 3 4 5 6
    by simp
qed

lemma multicall_tx_facts:
  "length (tx_data multicall_tx) = 5002" "filterFunction multicall_tx isMulticallCall \<noteq> []"
  by (simp_all add: multicall_tx_def example_tx_def filterFunction_def isMulticallCall_def)

text \<open>
  C8 as stated fails: a multicall with 2500 bytes of call data, far below 5000 bytes,
  gets the finding, because the detector measures the hexadecimal string of the call
  data, which has 5002 characters.
\<close>

theorem multicall_2500_bytes_counterexample:
  "callDataBytes multicall_tx = 2500 \<and> filterFunction multicall_tx isMulticallCall \<noteq> []
   \<and> map name (filter isSuspiciousMulticall
                 (PhishingDetector_handleTransaction example_env multicall_tx))
       = [''Suspicious Multicall'']"
  by (simp add: suspicious_multicall_filter multicall_tx_facts callDataBytes_def fromObject_def)

text \<open>
  C8, amended: the detector returns the suspicious-multicall finding, once and with
  severity Medium, if and only if the transaction contains at least one
  \<open>multicall(bytes[])\<close> invocation and its call data, as the hexadecimal string with its
  \<open>0x\<close> prefix, is longer than 5000 characters.
\<close>

theorem suspicious_multicall_iff:
  "filter isSuspiciousMulticall (PhishingDetector_handleTransaction e t)
     = (if filterFunction t isMulticallCall \<noteq> [] \<and> 5000 < length (tx_data t) then
          [fromObject ''Suspicious Multicall'' ''Large data multicall transaction detected''
             ''PHISHING-4'' Severity_Medium Type_Suspicious
             [(''contract'', to_or_empty t), (''from'', tx_from t),
              (''dataLength'', toString_nat (length (tx_data t)))]]
        else [])"
  by (rule suspicious_multicall_filter)

theorem suspicious_multicall_iff_witness:
  "filter isSuspiciousMulticall (PhishingDetector_handleTransaction example_env multicall_tx)
     = [fromObject ''Suspicious Multicall'' ''Large data multicall transaction detected''
          ''PHISHING-4'' Severity_Medium Type_Suspicious
          [(''contract'', ''0x1234''), (''from'', ''0xaaa''), (''dataLength'', ''5002'')]]
   \<and> filter isSuspiciousMulticall
        (PhishingDetector_handleTransaction example_env (multicall_tx\<lparr>tx_data := ''0xac9650d8''\<rparr>))
     = []"
proof -
  have n: "toString_nat 5002 = ''5002''" by code_simp
  have f: "to_or_empty multicall_tx = ''0x1234''" "tx_from multicall_tx = ''0xaaa''"
    by (simp_all add: multicall_tx_def example_tx_def to_or_empty_def)
  from suspicious_multicall_iff [of example_env multicall_tx]
    suspicious_multicall_iff [of example_env "multicall_tx\<lparr>tx_data := ''0xac9650d8''\<rparr>"]
  show ?thesis by (simp add: multicall_tx_facts n f)
qed

section \<open>Multisig protection detector: the direct execute call\<close>

text \<open>
  The test on a direct \<open>execTransaction\<close> call to a wallet, once it is reached: no
  finding without a cache entry, no finding when the lower-cased sender is literally
  among the cached owners, and exactly one finding of severity High otherwise.
\<close>

lemma unauthorized_cases:
  assumes "tx_to t = Some a" and "includes_str (tx_data t) MULTISIG_INTERFACES_EXECUTE"
  shows "unauthorizedAccess cache a t =
     (case Map_get cache a of
        None \<Rightarrow> []
      | Some c \<Rightarrow>
          if toLowerCase (tx_from t) \<in> set (owners c) then []
          else [fromObject ''Unauthorized Multisig Access Attempt''
                  ''Transaction to multisig from non-owner address''
                  ''MULTISIG-SECURITY-1'' Severity_High Type_Suspicious
                  [(''multisigAddress'', a), (''sender'', tx_from t),
                   (''transactionHash'', tx_hash t)]])"
  using assms by (simp add: unauthorizedAccess_def split: option.splits)


text \<open>
  On an event whose \<open>filterLog\<close> accepts the topic hash the check does what is expected
  of it: one finding for the outsider, none for the first owner.
\<close>

lemma outsider_reported_when_filterLog_resolves:
  "detectAnomalousActivity topic_filterLog example_env example_cache multisig_wallet
     (exec_tx outsider)
   = [fromObject ''Unauthorized Multisig Access Attempt''
        ''Transaction to multisig from non-owner address''
        ''MULTISIG-SECURITY-1'' Severity_High Type_Suspicious
        [(''multisigAddress'', ''0x1111111111111111111111111111111111111111''),
         (''sender'', ''0x9999999999999999999999999999999999999999''),
         (''transactionHash'', ''0x00'')]]"
  "detectAnomalousActivity topic_filterLog example_env example_cache multisig_wallet
     (exec_tx ''0x742d35cc6634c0532925a3b844bc454e4438f44e'') = []"
  by code_simp+


section \<open>Two-factor authentication detector: the enforcement check\<close>

lemma process_no_auth:
  assumes "filterLog t TWO_FACTOR_AUTH_EVENT = Inr []"
    and "filterLog t TWO_FACTOR_AUTH_SUCCESS = Inr []"
    and "filterLog t TWO_FACTOR_AUTH_FAILED = Inr authFailedEvents"
  shows "process2FAEvents filterLog e st t
           = (Inr (concat (map (authFailedStep t) authFailedEvents)), st)"
  using assms by (simp add: process2FAEvents_def)

text \<open>
  On an event whose \<open>filterLog\<close> returns no authentication-required and no
  authentication-successful log, the check does what is expected of it: for a sender
  in the 2FA-enabled set whose settings enable 2FA for \<open>all\<close> operations, and a value
  of at least the threshold, the findings are those of the failed authentications and
  then the missing-2FA finding when the last verification was 2000 seconds ago, and
  without it when the last verification was 10 seconds ago.
\<close>

lemma missing_2fa_when_filterLog_resolves:
  assumes user: "toLowerCase (tx_from t) \<in> set (usersWith2FA st)"
    and settings: "Map_get (user2FASettings st) (toLowerCase (tx_from t)) = Some s"
    and all: "enabledFor s = [''all'']"
    and thr: "valueThreshold s \<le> tx_value t"
    and noauth: "filterLog t TWO_FACTOR_AUTH_EVENT = Inr []"
      "filterLog t TWO_FACTOR_AUTH_SUCCESS = Inr []"
      "filterLog t TWO_FACTOR_AUTH_FAILED = Inr authFailedEvents"
  shows "(lastVerification s = now e - 2000 \<longrightarrow>
            fst (TwoFactorAuthDetector_handleTransaction filterLog e st t)
              = Inr (concat (map (authFailedStep t) authFailedEvents)
                     @ [fromObject ''Missing 2FA for High-Risk Transaction''
                          ''Transaction requires 2FA but authentication was not performed''
                          ''2FA-MISSING-1'' Severity_High Type_Suspicious
                          [(''user'', tx_from t), (''value'', toString_nat (tx_value t)),
                           (''operationType'', identifyOperationType t),
                           (''txHash'', tx_hash t)]]))
       \<and> (lastVerification s = now e - 10 \<longrightarrow>
            fst (TwoFactorAuthDetector_handleTransaction filterLog e st t)
              = Inr (concat (map (authFailedStep t) authFailedEvents)))"
proof -
  have 3: "checkHighRiskOperations st t = []"
    using user by (simp add: checkHighRiskOperations_def Let_def)
  have h: "has2FAEvent filterLog t = Inr False"
    by (simp add: has2FAEvent_def noauth)
  have p: "process2FAEvents filterLog e st t
             = (Inr (concat (map (authFailedStep t) authFailedEvents)), st)"
    using noauth by (rule process_no_auth)
  show ?thesis
    using user settings all thr
    by (simp add: TwoFactorAuthDetector_handleTransaction_def p 3 h
        checkTransactionFor2FA_def Let_def)
qed

lemma missing_2fa_example:
  "fst (TwoFactorAuthDetector_handleTransaction topic_filterLog (example_env\<lparr>now := 2000\<rparr>)
          initializeDefaultSettings transfer_2fa_tx)
     = Inr [fromObject ''Missing 2FA for High-Risk Transaction''
              ''Transaction requires 2FA but authentication was not performed''
              ''2FA-MISSING-1'' Severity_High Type_Suspicious
              [(''user'', ''0x742d35Cc6634C0532925a3b844Bc454e4438f44e''),
               (''value'', ''1000000000000000000''), (''operationType'', ''eth_transfer''),
               (''txHash'', ''0x00'')]]"
  "fst (TwoFactorAuthDetector_handleTransaction topic_filterLog (example_env\<lparr>now := 10\<rparr>)
          initializeDefaultSettings transfer_2fa_tx)
     = Inr []"
  by code_simp+

text \<open>
  C6 (the missing-2FA finding). For the first test address, whose settings enable 2FA
  for \<open>all\<close> operations above 0.1 ETH and whose last verification was 2000 seconds
  ago, and a transfer of one ETH without any log, \<open>handleTransaction\<close> returns no
  finding: the call is rejected, because \<open>filterLog\<close> throws on the topic hash at the
  first line of \<open>process2FAEvents\<close>.
\<close>

theorem missing_2fa_rejected:
  "toLowerCase (tx_from transfer_2fa_tx) \<in> set (usersWith2FA initializeDefaultSettings)
   \<and> Map_get (user2FASettings initializeDefaultSettings) (toLowerCase (tx_from transfer_2fa_tx))
       = Some \<lparr>enabledFor = [''all''], valueThreshold = 10 ^ 17, lastVerification = 2000 - 2000\<rparr>
   \<and> (10::nat) ^ 17 \<le> tx_value transfer_2fa_tx
   \<and> tx_logs transfer_2fa_tx = []
   \<and> TwoFactorAuthDetector_handleTransaction forta_filterLog (example_env\<lparr>now := 2000\<rparr>)
        initializeDefaultSettings transfer_2fa_tx
       = (Inl UnsupportedFragment, initializeDefaultSettings)"
proof -
  have a: "toLowerCase (tx_from transfer_2fa_tx) \<in> set (usersWith2FA initializeDefaultSettings)"
    by code_simp
  have b: "Map_get (user2FASettings initializeDefaultSettings)
             (toLowerCase (tx_from transfer_2fa_tx))
       = Some \<lparr>enabledFor = [''all''], valueThreshold = 10 ^ 17, lastVerification = 2000 - 2000\<rparr>"
    by code_simp
  have c: "(10::nat) ^ 17 \<le> tx_value transfer_2fa_tx"
    by code_simp
  have d: "tx_logs transfer_2fa_tx = []"
    by code_simp
  show ?thesis
    using a b c d by (simp add: twoFactorAuth_detector_rejects)
qed

end
